theory Spec2Isabelle
  imports Complex_Main
begin

section \<open>Numeric model\<close>

text \<open>
  The program computes on IEEE binary64 values (Python floats, NumPy float64, pandas
  cells). They are modelled as exact reals extended by the three special values the
  code can produce: the two infinities and NaN. Arithmetic on finite values is exact,
  except for the products of the shock propagation of the stress engine, which are
  rounded as binary64 rounds them; the sign of zero is not modelled, and division by
  zero takes the zero as positive. NumPy and pandas do not raise on division by zero or
  on the logarithm or square root of a negative number; they return an infinity or NaN.
\<close>

datatype fl = Num real | PInf | NInf | NaN

fun fneg :: "fl \<Rightarrow> fl" where
  "fneg (Num a) = Num (- a)"
| "fneg PInf = NInf"
| "fneg NInf = PInf"
| "fneg NaN = NaN"

fun fadd :: "fl \<Rightarrow> fl \<Rightarrow> fl" where
  "fadd (Num a) (Num b) = Num (a + b)"
| "fadd NaN _ = NaN"
| "fadd _ NaN = NaN"
| "fadd PInf NInf = NaN"
| "fadd NInf PInf = NaN"
| "fadd PInf _ = PInf"
| "fadd NInf _ = NInf"
| "fadd _ PInf = PInf"
| "fadd _ NInf = NInf"

definition fsub :: "fl \<Rightarrow> fl \<Rightarrow> fl" where
  "fsub x y = fadd x (fneg y)"

text \<open>The sign of a value: \<open>Some True\<close> for positive, \<open>Some False\<close> for negative,
  \<open>None\<close> for zero and NaN.\<close>

fun fsign :: "fl \<Rightarrow> bool option" where
  "fsign (Num a) = (if 0 < a then Some True else if a < 0 then Some False else None)"
| "fsign PInf = Some True"
| "fsign NInf = Some False"
| "fsign NaN = None"

definition finf :: "bool \<Rightarrow> fl" where
  "finf positive = (if positive then PInf else NInf)"

fun fmul :: "fl \<Rightarrow> fl \<Rightarrow> fl" where
  "fmul (Num a) (Num b) = Num (a * b)"
| "fmul NaN _ = NaN"
| "fmul _ NaN = NaN"
| "fmul x y =
     (case (fsign x, fsign y) of
        (Some s, Some t) \<Rightarrow> finf (s = t)
      | _ \<Rightarrow> NaN)"

fun fdiv :: "fl \<Rightarrow> fl \<Rightarrow> fl" where
  "fdiv (Num a) (Num b) =
     (if b \<noteq> 0 then Num (a / b)
      else if 0 < a then PInf else if a < 0 then NInf else NaN)"
| "fdiv NaN _ = NaN"
| "fdiv _ NaN = NaN"
| "fdiv (Num a) _ = Num 0"
| "fdiv PInf (Num b) = (if 0 \<le> b then PInf else NInf)"
| "fdiv NInf (Num b) = (if 0 \<le> b then NInf else PInf)"
| "fdiv _ _ = NaN"

fun fsqrt :: "fl \<Rightarrow> fl" where
  "fsqrt (Num a) = (if a < 0 then NaN else Num (sqrt a))"
| "fsqrt PInf = PInf"
| "fsqrt _ = NaN"

fun flog :: "fl \<Rightarrow> fl" where
  "flog (Num a) = (if 0 < a then Num (ln a) else if a = 0 then NInf else NaN)"
| "flog PInf = PInf"
| "flog _ = NaN"

text \<open>Comparison: every comparison with NaN is false.\<close>

fun fle :: "fl \<Rightarrow> fl \<Rightarrow> bool" where
  "fle (Num a) (Num b) = (a \<le> b)"
| "fle NaN _ = False"
| "fle _ NaN = False"
| "fle NInf _ = True"
| "fle _ PInf = True"
| "fle _ _ = False"

definition isnan :: "fl \<Rightarrow> bool" where
  "isnan x = (x = NaN)"

text \<open>pandas reductions skip NaN (\<open>skipna=True\<close>); the sum of nothing is 0 and the
  product of nothing is 1. NumPy's \<open>dot\<close> does not skip anything.\<close>

definition dropna :: "fl list \<Rightarrow> fl list" where
  "dropna xs = filter (\<lambda>x. \<not> isnan x) xs"

definition np_sum :: "fl list \<Rightarrow> fl" where
  "np_sum xs = foldl fadd (Num 0) xs"

definition np_prod :: "fl list \<Rightarrow> fl" where
  "np_prod xs = foldl fmul (Num 1) xs"

definition pd_sum :: "fl list \<Rightarrow> fl" where
  "pd_sum xs = np_sum (dropna xs)"

definition pd_prod :: "fl list \<Rightarrow> fl" where
  "pd_prod xs = np_prod (dropna xs)"

text \<open>
  Where the last bit of a result matters, a product is rounded as binary64 does:
  to the nearest value with a significand of 53 bits, a tie going to the even
  significand, with gradual underflow below \<open>2^-1022\<close> and overflow to an infinity
  from \<open>2^1024\<close> on. \<open>b64_round x\<close> is also the value of a decimal literal \<open>x\<close>.
\<close>

definition round_even :: "real \<Rightarrow> int" where
  "round_even y =
     (let f = \<lfloor>y\<rfloor>; d = y - of_int f
      in if d < 1 / 2 then f else if 1 / 2 < d then f + 1 else if even f then f else f + 1)"

definition b64_round :: "real \<Rightarrow> fl" where
  "b64_round x =
     (if x = 0 then Num 0
      else let e = max \<lfloor>log 2 \<bar>x\<bar>\<rfloor> (- 1022);
               ulp = power_int 2 (e - 52);
               r = of_int (round_even (x / ulp)) * ulp
           in if 2 ^ 1024 \<le> \<bar>r\<bar> then finf (0 < x) else Num r)"

definition fmul64 :: "fl \<Rightarrow> fl \<Rightarrow> fl" where
  "fmul64 x y = (case fmul x y of Num p \<Rightarrow> b64_round p | z \<Rightarrow> z)"

section \<open>Errors\<close>

text \<open>
  Every failure of the program is a Python \<open>ValueError\<close>; the constructors name the
  raise sites after the error kinds of the specification:
  \<^item> \<open>EmptyInputError\<close>: "Price data is empty after cleaning."
  \<^item> \<open>WeightMismatchError\<close>: "Portfolio weights must match asset universe exactly."
  \<^item> \<open>WeightSumError\<close>: "Portfolio weights must sum to 1. Current sum = ..."
  \<^item> \<open>NegativeWeightError\<close>: "Portfolio weights cannot be negative."
  \<^item> \<open>InvalidShockError\<close>: "Shock must be between -100% and 0%."
  \<^item> \<open>UndefinedRatioError\<close>: "Sharpe ratio undefined when volatility is zero or negative."
  \<^item> \<open>ShapeError\<close>: the \<open>ValueError\<close> NumPy raises when the shapes of the operands
    of a matrix product do not agree.
\<close>

datatype error =
    EmptyInputError
  | WeightMismatchError
  | WeightSumError
  | NegativeWeightError
  | InvalidShockError
  | UndefinedRatioError
  | ShapeError

section \<open>Tables, series and matrices\<close>

text \<open>
  A pandas Series indexed by asset is an association list from label to value, in index
  order, with distinct labels. A DataFrame is its row count and its columns, each a
  label and the column's cells from the first row to the last; every column has
  \<open>nrows\<close> cells. A Series indexed by date is the list of its values, in date order.
\<close>

type_synonym series = "(string \<times> fl) list"

record 'a frame =
  nrows :: nat
  columns :: "(string \<times> 'a list) list"

definition cell :: "fl list \<Rightarrow> nat \<Rightarrow> fl" where
  "cell xs t = (if t < length xs then xs ! t else NaN)"

text \<open>
  A binary operation on two Series aligns them by label: a label that only one of them
  has gets NaN. (pandas sorts the labels of the result when the two indexes differ; the
  model keeps the labels of the left operand, then the new ones of the right operand.)
\<close>

definition pd_align :: "(fl \<Rightarrow> fl \<Rightarrow> fl) \<Rightarrow> series \<Rightarrow> series \<Rightarrow> series" where
  "pd_align f xs ys =
     map (\<lambda>(k, x). (k, case map_of ys k of Some y \<Rightarrow> f x y | None \<Rightarrow> NaN)) xs
     @ map (\<lambda>(k, y). (k, NaN)) (filter (\<lambda>(k, y). map_of xs k = None) ys)"

text \<open>
  A matrix is the list of its rows. The matrices of the program are square (a
  covariance or correlation matrix, a diagonal matrix), and NumPy raises
  \<open>ValueError\<close> when the shapes of the operands of a product do not agree.
\<close>

definition is_square :: "nat \<Rightarrow> fl list list \<Rightarrow> bool" where
  "is_square n m = (length m = n \<and> (\<forall>row \<in> set m. length row = n))"

definition np_vdot :: "fl list \<Rightarrow> fl list \<Rightarrow> error + fl" where
  "np_vdot xs ys =
     (if length xs = length ys then Inr (np_sum (map2 fmul xs ys)) else Inl ShapeError)"

definition np_matvec :: "fl list list \<Rightarrow> fl list \<Rightarrow> error + fl list" where
  "np_matvec m v =
     (if is_square (length v) m then Inr (map (\<lambda>row. np_sum (map2 fmul row v)) m)
      else Inl ShapeError)"

definition np_matmul :: "fl list list \<Rightarrow> fl list list \<Rightarrow> error + fl list list" where
  "np_matmul a b =
     (if is_square (length b) a \<and> is_square (length b) b
      then Inr (map (\<lambda>row. map (\<lambda>j. np_sum (map2 fmul row (map (\<lambda>r. cell r j) b)))
                              [0..<length b]) a)
      else Inl ShapeError)"

definition np_diag :: "fl list \<Rightarrow> fl list list" where
  "np_diag v = map (\<lambda>i. map (\<lambda>j. if i = j then cell v i else Num 0) [0..<length v])
                   [0..<length v]"

text \<open>
  \<open>DataFrame.cov()\<close> of pandas: the sample covariance (normalised by \<open>N - 1\<close>) of
  every pair of columns. When the table has a NaN cell, each pair of columns is taken
  over the rows where both cells are finite; fewer than two such rows give NaN. When no
  cell is NaN, all rows are used, and a column with an infinite cell gives NaN.
\<close>

definition is_finite :: "fl \<Rightarrow> bool" where
  "is_finite x = (case x of Num _ \<Rightarrow> True | _ \<Rightarrow> False)"

definition finite_pairs :: "fl list \<Rightarrow> fl list \<Rightarrow> (real \<times> real) list" where
  "finite_pairs xs ys =
     concat (map (\<lambda>(x, y). case (x, y) of (Num a, Num b) \<Rightarrow> [(a, b)] | _ \<Rightarrow> []) (zip xs ys))"

definition sample_cov :: "(real \<times> real) list \<Rightarrow> fl" where
  "sample_cov ps =
     (let n = length ps in
      if n \<le> 1 then NaN
      else let mx = sum_list (map fst ps) / real n;
               my = sum_list (map snd ps) / real n
           in Num (sum_list (map (\<lambda>(x, y). (x - mx) * (y - my)) ps) / real (n - 1)))"

definition pd_cov :: "fl frame \<Rightarrow> fl list list" where
  "pd_cov df =
     (let cols = map snd (columns df);
          no_nan = (\<forall>c \<in> set cols. \<forall>x \<in> set c. \<not> isnan x)
      in map (\<lambda>xs. map (\<lambda>ys.
            if no_nan \<and> \<not> (\<forall>x \<in> set (xs @ ys). is_finite x) then NaN
            else sample_cov (finite_pairs xs ys)) cols) cols)"

section \<open>Metrics\<close>

subsection \<open>Returns\<close>

text \<open>
  A price table has finite cells. \<open>DataFrame.empty\<close> holds when the table has no rows
  or no columns. \<open>pct_change\<close> is \<open>data / data.shift(1) - 1\<close> and \<open>diff\<close> is
  \<open>data - data.shift(1)\<close>: the first row of the result is NaN.
\<close>

definition df_empty :: "'a frame \<Rightarrow> bool" where
  "df_empty df = (nrows df = 0 \<or> columns df = [])"

definition lagged :: "(fl \<Rightarrow> fl \<Rightarrow> fl) \<Rightarrow> fl list \<Rightarrow> fl list" where
  "lagged f xs = (case xs of [] \<Rightarrow> [] | _ # rest \<Rightarrow> NaN # map2 f rest xs)"

definition daily_returns :: "real frame \<Rightarrow> error + fl frame" where
  "daily_returns prices_df =
     (if df_empty prices_df then Inl EmptyInputError
      else Inr \<lparr>nrows = nrows prices_df,
                columns = map (\<lambda>(c, xs). (c, lagged (\<lambda>cur prev. fsub (fdiv cur prev) (Num 1))
                                                 (map Num xs)))
                              (columns prices_df)\<rparr>)"

definition daily_log_returns :: "real frame \<Rightarrow> error + fl frame" where
  "daily_log_returns prices_df =
     Inr \<lparr>nrows = nrows prices_df,
          columns = map (\<lambda>(c, xs). (c, lagged fsub (map (\<lambda>x. flog (Num x)) xs)))
                        (columns prices_df)\<rparr>"

subsection \<open>Drawdown\<close>

text \<open>
  \<open>cummax\<close> walks the series from the start and carries the largest value seen so
  far; a NaN cell gives NaN and leaves the running maximum as it is. \<open>min\<close> skips NaN
  and is NaN when nothing is left. The function is given for one series; on a table
  pandas applies the same steps to every column.
\<close>

definition fmax :: "fl \<Rightarrow> fl \<Rightarrow> fl" where
  "fmax x y = (if fle x y then y else x)"

definition fmin :: "fl \<Rightarrow> fl \<Rightarrow> fl" where
  "fmin x y = (if fle y x then y else x)"

fun cummax_from :: "fl option \<Rightarrow> fl list \<Rightarrow> fl list" where
  "cummax_from m [] = []"
| "cummax_from m (x # xs) =
     (if isnan x then NaN # cummax_from m xs
      else let m' = (case m of None \<Rightarrow> x | Some y \<Rightarrow> fmax y x)
           in m' # cummax_from (Some m') xs)"

definition pd_cummax :: "fl list \<Rightarrow> fl list" where
  "pd_cummax xs = cummax_from None xs"

definition pd_min :: "fl list \<Rightarrow> fl" where
  "pd_min xs = (case dropna xs of [] \<Rightarrow> NaN | y # ys \<Rightarrow> foldl fmin y ys)"

definition calculate_drawdown :: "fl list \<Rightarrow> fl list \<times> fl" where
  "calculate_drawdown cleaned_prices =
     (let running_max = pd_cummax cleaned_prices;
          drawdown = map2 (\<lambda>p m. fdiv (fsub p m) m) cleaned_prices running_max;
          max_drawdown = pd_min drawdown
      in (drawdown, max_drawdown))"

definition calculate_drawdown_frame :: "fl frame \<Rightarrow> fl frame \<times> series" where
  "calculate_drawdown_frame cleaned_prices =
     (\<lparr>nrows = nrows cleaned_prices,
       columns = map (\<lambda>(c, xs). (c, fst (calculate_drawdown xs))) (columns cleaned_prices)\<rparr>,
      map (\<lambda>(c, xs). (c, snd (calculate_drawdown xs))) (columns cleaned_prices))"

subsection \<open>Sharpe ratio\<close>

text \<open>
  \<open>DataFrame.mean()\<close> is the mean of the cells of each column that are not NaN, and
  NaN when there is none. \<open>TRADING_DAYS_PER_YEAR\<close> is a constant of the configuration
  module, which is a parameter here.
\<close>

definition pd_mean :: "fl list \<Rightarrow> fl" where
  "pd_mean xs =
     (let ys = dropna xs
      in if ys = [] then NaN else fdiv (np_sum ys) (Num (real (length ys))))"

definition calculate_sharpe :: "real \<Rightarrow> fl frame \<Rightarrow> series \<Rightarrow> error + series" where
  "calculate_sharpe TRADING_DAYS_PER_YEAR daily_returns_df annual_vol =
     (if \<exists>v \<in> set (map snd annual_vol). fle v (Num 0) then Inl UndefinedRatioError
      else let annual_sharpe =
                 pd_align fdiv
                   (map (\<lambda>(c, xs). (c, fmul (pd_mean xs) (Num TRADING_DAYS_PER_YEAR)))
                        (columns daily_returns_df))
                   annual_vol
           in Inr annual_sharpe)"

section \<open>Portfolio aggregation engine\<close>

text \<open>
  A weight vector is a Python dict from asset identifier to a finite number: an
  association list in insertion order, with distinct keys.
\<close>

type_synonym weights = "(string \<times> real) list"

definition validate_weights :: "weights \<Rightarrow> string list \<Rightarrow> error + unit" where
  "validate_weights weights assets =
     (if set (map fst weights) \<noteq> set assets then Inl WeightMismatchError
      else let total_weight = sum_list (map snd weights) in
        if \<bar>total_weight - 1\<bar> > 1 / 1000000 then Inl WeightSumError
        else if \<exists>w \<in> set (map snd weights). w < 0 then Inl NegativeWeightError
        else Inr ())"

definition series_of_dict :: "weights \<Rightarrow> series" where
  "series_of_dict d = map (\<lambda>(k, v). (k, Num v)) d"

text \<open>
  \<open>asset_returns * weights\<close> turns the dict into a Series over the columns of the
  table (pandas raises \<open>ValueError\<close> when their numbers differ), so each column is
  multiplied by the weight of its label; \<open>sum(axis=1)\<close> adds each row, skipping NaN.
\<close>

definition calculate_portfolio_returns :: "fl frame \<Rightarrow> weights \<Rightarrow> error + fl list" where
  "calculate_portfolio_returns asset_returns weights =
     (case validate_weights weights (map fst (columns asset_returns)) of
        Inl e \<Rightarrow> Inl e
      | Inr _ \<Rightarrow>
          if length (columns asset_returns) \<noteq> length weights then Inl ShapeError
          else Inr (map (\<lambda>t. pd_sum (map (\<lambda>(c, xs).
                      fmul (cell xs t) (case map_of weights c of Some w \<Rightarrow> Num w | None \<Rightarrow> NaN))
                    (columns asset_returns)))
                 [0..<nrows asset_returns]))"

definition calculate_portfolio_annual_return :: "fl list \<Rightarrow> fl" where
  "calculate_portfolio_annual_return portfolio_daily_ret =
     fsub (pd_prod (map (fadd (Num 1)) portfolio_daily_ret)) (Num 1)"

text \<open>\<open>np.dot\<close> works by position: the weights are taken in the order of the dict.\<close>

definition calculate_daily_portfolio_volatility :: "fl frame \<Rightarrow> weights \<Rightarrow> error + fl" where
  "calculate_daily_portfolio_volatility log_returns weights =
     (case validate_weights weights (map fst (columns log_returns)) of
        Inl e \<Rightarrow> Inl e
      | Inr _ \<Rightarrow>
          let cov_matrix = pd_cov log_returns;
              weights_matrix = map snd (series_of_dict weights)
          in case np_matvec cov_matrix weights_matrix of
               Inl e \<Rightarrow> Inl e
             | Inr cw \<Rightarrow>
                 (case np_vdot weights_matrix cw of
                    Inl e \<Rightarrow> Inl e
                  | Inr q \<Rightarrow> Inr (fsqrt q)))"

definition calculate_annual_portfolio_volatility :: "fl \<Rightarrow> fl" where
  "calculate_annual_portfolio_volatility portfolio_vol = fmul portfolio_vol (Num (sqrt 252))"

definition calculate_diversification_benefit :: "series \<Rightarrow> weights \<Rightarrow> fl \<Rightarrow> error + fl" where
  "calculate_diversification_benefit asset_vols weights portfolio_vol =
     (case validate_weights weights (map fst asset_vols) of
        Inl e \<Rightarrow> Inl e
      | Inr _ \<Rightarrow>
          if length weights = 1 then Inr (Num 0)
          else let naive_vol = pd_sum (map snd (pd_align fmul asset_vols (series_of_dict weights)));
                   divers_benefit = fsub naive_vol portfolio_vol
               in Inr divers_benefit)"

text \<open>
  \<open>MRC\<close> is a NumPy array, so the last product is by position; the result keeps the
  labels of the weights. After the matrix product the two have the same length.
\<close>

definition calculate_asset_risk_contribution :: "weights \<Rightarrow> fl frame \<Rightarrow> fl \<Rightarrow> error + series" where
  "calculate_asset_risk_contribution weights log_returns portfolio_vol =
     (case validate_weights weights (map fst (columns log_returns)) of
        Inl e \<Rightarrow> Inl e
      | Inr _ \<Rightarrow>
          let cov_matrix = pd_cov log_returns
          in case np_matvec cov_matrix (map snd (series_of_dict weights)) of
               Inl e \<Rightarrow> Inl e
             | Inr cw \<Rightarrow>
                 let MRC = map (\<lambda>x. fdiv x portfolio_vol) cw;
                     risk_contri = map2 (\<lambda>(k, w) m. (k, fmul w m)) (series_of_dict weights) MRC
                 in Inr risk_contri)"

section \<open>Stress engine\<close>

text \<open>\<open>betas * shock_amt\<close> is the binary64 product of each beta with the shock.\<close>

definition calculate_stressed_assets_returns :: "series \<Rightarrow> fl \<Rightarrow> error + series" where
  "calculate_stressed_assets_returns betas shock_amt =
     (if \<not> (fle (Num (- 1)) shock_amt \<and> fle shock_amt (Num 0)) then Inl InvalidShockError
      else let asset_stress_return = map (\<lambda>(k, b). (k, fmul64 b shock_amt)) betas
           in Inr asset_stress_return)"

definition calculate_portfolio_loss :: "weights \<Rightarrow> series \<Rightarrow> error + fl" where
  "calculate_portfolio_loss weights asset_stress_returns =
     (let shocked_portfolio_ret =
            pd_sum (map snd (pd_align fmul (series_of_dict weights) asset_stress_returns))
      in Inr shocked_portfolio_ret)"

definition calculate_concentration_stress_loss :: "weights \<Rightarrow> fl \<Rightarrow> error + series" where
  "calculate_concentration_stress_loss weights stress_amt =
     (if \<not> (fle (Num (- 1)) stress_amt \<and> fle stress_amt (Num 0)) then Inl InvalidShockError
      else let portfolio_weights = series_of_dict weights
           in Inr (map (\<lambda>asset.
                     let zero_ret_series =
                           map (\<lambda>(k, _). (k, if k = asset then stress_amt else Num 0))
                               portfolio_weights
                     in (asset, pd_sum (map snd (pd_align fmul portfolio_weights zero_ret_series))))
                   (map fst portfolio_weights)))"

text \<open>
  The correlation matrix is given by the rows of its values; its labels play no part,
  since the code multiplies the values by position. \<open>clip\<close> keeps NaN. The product
  \<open>D @ C @ D\<close> is evaluated from the left.
\<close>

definition fclip :: "fl \<Rightarrow> fl" where
  "fclip x = (if fle x (Num (- 1)) then Num (- 1) else if fle (Num 1) x then Num 1 else x)"

definition calculate_correlation_breakdown_volatility ::
    "fl list list \<Rightarrow> series \<Rightarrow> weights \<Rightarrow> error + fl" where
  "calculate_correlation_breakdown_volatility corr_matrix asset_vols weights =
     (let stressed_corr_matrix = map (map (\<lambda>x. fclip (fmul x (Num (15 / 10))))) corr_matrix;
          D = np_diag (map snd asset_vols)
      in case np_matmul D stressed_corr_matrix of
           Inl e \<Rightarrow> Inl e
         | Inr ds \<Rightarrow>
             (case np_matmul ds D of
                Inl e \<Rightarrow> Inl e
              | Inr stressed_cov_matrix \<Rightarrow>
                  let weights_matrix = map snd (series_of_dict weights)
                  in case np_matvec stressed_cov_matrix weights_matrix of
                       Inl e \<Rightarrow> Inl e
                     | Inr cw \<Rightarrow>
                         (case np_vdot weights_matrix cw of
                            Inl e \<Rightarrow> Inl e
                          | Inr q \<Rightarrow> Inr (fsqrt q))))"

definition calculate_annual_correlation_breakdown_volatility :: "fl \<Rightarrow> fl" where
  "calculate_annual_correlation_breakdown_volatility daily_breakdown_portfolio_vol =
     fmul daily_breakdown_portfolio_vol (Num (sqrt 252))"

section \<open>Reference definitions\<close>

text \<open>
  The running maximum and the drawdown as the specification words them: the running
  maximum at a date is the largest value from the start up to that date, and the
  drawdown is \<open>(value - running_max) / running_max\<close>.
\<close>

definition spec_running_max :: "real list \<Rightarrow> nat \<Rightarrow> real" where
  "spec_running_max vs t = Max (set (take (Suc t) vs))"

definition spec_drawdown :: "real list \<Rightarrow> nat \<Rightarrow> real" where
  "spec_drawdown vs t = (vs ! t - spec_running_max vs t) / spec_running_max vs t"

text \<open>
  The quadratic form \<open>w' * C * w\<close> of a matrix given by its entries, and the stressed
  covariance of the correlation breakdown as the specification words it: every entry
  of the correlation matrix is multiplied by 1.5 and clipped to \<open>[-1, 1]\<close>, and the
  covariance matrix is rebuilt as \<open>D * Corr' * D\<close> with the asset volatilities on the
  diagonal of \<open>D\<close>.
\<close>

definition spec_quad_form :: "nat \<Rightarrow> (nat \<Rightarrow> real) \<Rightarrow> (nat \<Rightarrow> nat \<Rightarrow> real) \<Rightarrow> real" where
  "spec_quad_form n w c = (\<Sum>i<n. \<Sum>j<n. w i * c i j * w j)"

definition spec_clip :: "real \<Rightarrow> real" where
  "spec_clip x = max (- 1) (min 1 x)"

definition spec_stressed_cov :: "real list \<Rightarrow> real list list \<Rightarrow> nat \<Rightarrow> nat \<Rightarrow> real" where
  "spec_stressed_cov vols corr i j = vols ! i * spec_clip (15 / 10 * (corr ! i ! j)) * vols ! j"

text \<open>A square matrix of finite values, given by its entries.\<close>

definition mat_of :: "nat \<Rightarrow> (nat \<Rightarrow> nat \<Rightarrow> real) \<Rightarrow> fl list list" where
  "mat_of n f = map (\<lambda>i. map (\<lambda>j. Num (f i j)) [0..<n]) [0..<n]"

text \<open>The value of a finite number, and the weight a dict gives to an asset.\<close>

fun fval :: "fl \<Rightarrow> real" where
  "fval (Num a) = a"
| "fval _ = 0"


section \<open>Auxiliary facts\<close>

lemma validate_weights_invalid:
  assumes "set (map fst ws) \<noteq> set assets \<or> \<bar>sum_list (map snd ws) - 1\<bar> > 1 / 1000000
           \<or> (\<exists>w \<in> set (map snd ws). w < 0)"
  shows "\<exists>e \<in> {WeightMismatchError, WeightSumError, NegativeWeightError}.
           validate_weights ws assets = Inl e"
  using assms by (auto simp add: validate_weights_def Let_def)

subsection \<open>Returns\<close>

lemma length_lagged: "length (lagged f xs) = length xs"
  by (cases xs) (simp_all add: lagged_def)

lemma lagged_first: "xs \<noteq> [] \<Longrightarrow> lagged f xs ! 0 = NaN"
  by (cases xs) (simp_all add: lagged_def)

lemma lagged_nth:
  assumes "0 < t" "t < length xs"
  shows "lagged f xs ! t = f (xs ! t) (xs ! (t - 1))"
proof (cases xs)
  case Nil
  with assms show ?thesis by simp
next
  case (Cons x rest)
  from assms obtain u where u: "t = Suc u" by (cases t) auto
  with assms Cons have "u < length rest" by simp
  then show ?thesis using Cons u by (simp add: lagged_def)
qed

lemma log_diff_nth:
  assumes "0 < t" "t < length xs" "0 < xs ! t" "0 < xs ! (t - 1)"
  shows "lagged fsub (map (\<lambda>x. flog (Num x)) xs) ! t = Num (ln (xs ! t) - ln (xs ! (t - 1)))"
proof -
  have "t - 1 < length xs" using assms(2) by simp
  then show ?thesis using assms by (simp add: lagged_nth fsub_def)
qed

subsection \<open>Drawdown\<close>

lemma Max_insert_max:
  "finite S \<Longrightarrow> Max (insert (max m x) S) = Max (insert m (insert x S))"
  by (cases "S = {}") (simp_all add: max.assoc)

lemma Min_insert_min:
  "finite S \<Longrightarrow> Min (insert (min m x) S) = Min (insert m (insert x S))"
  by (cases "S = {}") (simp_all add: min.assoc)

lemma cummax_from_Num:
  "cummax_from (Some (Num m)) (map Num rs)
     = map (\<lambda>t. Num (Max (insert m (set (take (Suc t) rs))))) [0..<length rs]"
proof (induction rs arbitrary: m)
  case Nil
  show ?case by simp
next
  case (Cons x xs)
  have fmax: "fmax (Num m) (Num x) = Num (max m x)"
    by (simp add: fmax_def max_def)
  have "cummax_from (Some (Num m)) (map Num (x # xs))
        = Num (max m x) # cummax_from (Some (Num (max m x))) (map Num xs)"
    by (simp add: isnan_def fmax Let_def)
  also have "\<dots> = Num (max m x)
        # map (\<lambda>t. Num (Max (insert (max m x) (set (take (Suc t) xs))))) [0..<length xs]"
    by (simp only: Cons.IH)
  also have "\<dots> = map (\<lambda>t. Num (Max (insert m (set (take (Suc t) (x # xs))))))
                       [0..<length (x # xs)]"
    by (simp add: map_upt_Suc Max_insert_max del: upt_Suc)
  finally show ?case .
qed

lemma pd_cummax_Num:
  "pd_cummax (map Num rs) = map (\<lambda>t. Num (spec_running_max rs t)) [0..<length rs]"
proof (cases rs)
  case Nil
  then show ?thesis by (simp add: pd_cummax_def)
next
  case (Cons x xs)
  have "pd_cummax (map Num (x # xs)) = Num x # cummax_from (Some (Num x)) (map Num xs)"
    by (simp add: pd_cummax_def isnan_def Let_def)
  also have "\<dots> = Num x # map (\<lambda>t. Num (Max (insert x (set (take (Suc t) xs))))) [0..<length xs]"
    by (simp only: cummax_from_Num)
  also have "\<dots> = map (\<lambda>t. Num (spec_running_max (x # xs) t)) [0..<length (x # xs)]"
    by (simp add: map_upt_Suc spec_running_max_def del: upt_Suc)
  finally show ?thesis using Cons by simp
qed

lemma running_max_ge:
  assumes "t < length vs"
  shows "vs ! t \<le> spec_running_max vs t"
proof -
  have "vs ! t \<in> set (take (Suc t) vs)"
    using assms by (metis in_set_conv_nth length_take lessI min_less_iff_conj nth_take)
  then show ?thesis by (simp add: spec_running_max_def)
qed

lemma foldl_fmin_Num:
  "foldl fmin (Num d) (map Num ds) = Num (Min (insert d (set ds)))"
proof (induction ds arbitrary: d)
  case Nil
  show ?case by simp
next
  case (Cons x xs)
  have "fmin (Num d) (Num x) = Num (min d x)" by (simp add: fmin_def min_def)
  then show ?case using Cons.IH [of "min d x"] by (simp add: Min_insert_min)
qed

lemma dropna_Num: "dropna (map Num ds) = map Num ds"
  by (induction ds) (simp_all add: dropna_def isnan_def)

lemma pd_min_Num:
  assumes "ds \<noteq> []"
  shows "pd_min (map Num ds) = Num (Min (set ds))"
proof -
  from assms obtain d rest where ds: "ds = d # rest" by (cases ds) auto
  have "dropna (map Num ds) = Num d # map Num rest"
    using dropna_Num [of ds] ds by simp
  then show ?thesis
    by (simp add: pd_min_def foldl_fmin_Num ds)
qed

lemma drawdown_Num:
  assumes "\<forall>v \<in> set vs. 0 < v"
  shows "fst (calculate_drawdown (map Num vs)) = map (\<lambda>t. Num (spec_drawdown vs t)) [0..<length vs]"
proof (rule nth_equalityI)
  show "length (fst (calculate_drawdown (map Num vs)))
        = length (map (\<lambda>t. Num (spec_drawdown vs t)) [0..<length vs])"
    by (simp add: calculate_drawdown_def Let_def pd_cummax_Num)
next
  fix t assume "t < length (fst (calculate_drawdown (map Num vs)))"
  then have t: "t < length vs"
    by (simp add: calculate_drawdown_def Let_def pd_cummax_Num)
  then have "0 < vs ! t" using assms by simp
  with running_max_ge [OF t] have "spec_running_max vs t \<noteq> 0" by linarith
  then show "fst (calculate_drawdown (map Num vs)) ! t
             = map (\<lambda>t. Num (spec_drawdown vs t)) [0..<length vs] ! t"
    using t by (simp add: calculate_drawdown_def Let_def pd_cummax_Num fsub_def spec_drawdown_def)
qed

subsection \<open>Series and sums of finite values\<close>

lemma map_of_map_values:
  "map_of (map (\<lambda>(k, x). (k, g k x)) xs) a = map_option (g a) (map_of xs a)"
  by (induction xs) auto

lemma map_of_pd_align:
  assumes "map_of xs a = Some x" "map_of ys a = Some y"
  shows "map_of (pd_align f xs ys) a = Some (f x y)"
  using assms by (simp add: pd_align_def map_of_map_values)

lemma foldl_fadd_Num: "foldl fadd (Num a) (map Num rs) = Num (a + sum_list rs)"
  by (induction rs arbitrary: a) (simp_all add: add.assoc)

lemma np_sum_Num: "np_sum (map Num rs) = Num (sum_list rs)"
  by (simp add: np_sum_def foldl_fadd_Num)

lemma pd_mean_Num:
  assumes "rs \<noteq> []"
  shows "pd_mean (NaN # map Num rs) = Num (sum_list rs / real (length rs))"
proof -
  have "dropna (NaN # map Num rs) = map Num rs"
    using dropna_Num [of rs] by (simp add: dropna_def isnan_def)
  then show ?thesis using assms by (simp add: pd_mean_def np_sum_Num)
qed

subsection \<open>Matrices of finite values\<close>

lemma zip_map_same: "zip (map f xs) (map g xs) = map (\<lambda>x. (f x, g x)) xs"
  by (induction xs) simp_all

lemma sum_list_upt: "sum_list (map h [0..<n]) = (\<Sum>k<n. h k)" for h :: "nat \<Rightarrow> real"
  by (simp add: interv_sum_list_conv_sum_set_nat atLeast0LessThan)

lemma np_sum_dot_Num:
  "np_sum (map2 fmul (map (\<lambda>k. Num (f k)) [0..<n]) (map (\<lambda>k. Num (g k)) [0..<n]))
     = Num (\<Sum>k<n. f k * g k)"
proof -
  have "map2 fmul (map (\<lambda>k. Num (f k)) [0..<n]) (map (\<lambda>k. Num (g k)) [0..<n])
        = map Num (map (\<lambda>k. f k * g k) [0..<n])"
    by (simp add: zip_map_same)
  then show ?thesis by (simp only: np_sum_Num sum_list_upt)
qed

lemma Num_list_upt: "map Num w = map (\<lambda>k. Num (w ! k)) [0..<length w]"
  by (rule nth_equalityI) simp_all

lemma length_mat_of: "length (mat_of n f) = n"
  by (simp add: mat_of_def)

lemma is_square_mat_of: "is_square n (mat_of n f)"
  by (auto simp add: is_square_def mat_of_def)

lemma mat_of_cong:
  assumes "\<And>i j. i < n \<Longrightarrow> j < n \<Longrightarrow> f i j = g i j"
  shows "mat_of n f = mat_of n g"
  using assms by (simp add: mat_of_def)

lemma column_mat_of:
  assumes "j < n"
  shows "map (\<lambda>r. cell r j) (mat_of n f) = map (\<lambda>i. Num (f i j)) [0..<n]"
  using assms by (simp add: mat_of_def cell_def comp_def)

lemma np_matmul_mat_of:
  "np_matmul (mat_of n a) (mat_of n b) = Inr (mat_of n (\<lambda>i j. \<Sum>k<n. a i k * b k j))"
proof -
  have "map (\<lambda>row. map (\<lambda>j. np_sum (map2 fmul row (map (\<lambda>r. cell r j) (mat_of n b)))) [0..<n])
            (mat_of n a)
        = mat_of n (\<lambda>i j. \<Sum>k<n. a i k * b k j)"
    by (simp add: mat_of_def [of n a] mat_of_def [of n "\<lambda>i j. \<Sum>k<n. a i k * b k j"]
        comp_def column_mat_of np_sum_dot_Num)
  then show ?thesis
    by (simp add: np_matmul_def length_mat_of is_square_mat_of)
qed

lemma np_diag_Num:
  "np_diag (map Num vs) = mat_of (length vs) (\<lambda>i j. if i = j then vs ! i else 0)"
  by (simp add: np_diag_def mat_of_def cell_def)

lemma np_matvec_mat_of:
  assumes "length w = n"
  shows "np_matvec (mat_of n a) (map Num w) = Inr (map (\<lambda>i. Num (\<Sum>j<n. a i j * w ! j)) [0..<n])"
proof -
  have w: "map Num w = map (\<lambda>k. Num (w ! k)) [0..<n]"
    using Num_list_upt [of w] assms by simp
  have "map (\<lambda>row. np_sum (map2 fmul row (map (\<lambda>k. Num (w ! k)) [0..<n]))) (mat_of n a)
        = map (\<lambda>i. Num (\<Sum>j<n. a i j * w ! j)) [0..<n]"
    by (simp add: mat_of_def comp_def np_sum_dot_Num)
  then show ?thesis
    using assms by (simp add: np_matvec_def is_square_mat_of w)
qed

lemma np_vdot_Num:
  assumes "length w = n"
  shows "np_vdot (map Num w) (map (\<lambda>i. Num (g i)) [0..<n]) = Inr (Num (\<Sum>i<n. w ! i * g i))"
proof -
  have w: "map Num w = map (\<lambda>k. Num (w ! k)) [0..<n]"
    using Num_list_upt [of w] assms by simp
  show ?thesis
    by (simp add: np_vdot_def w np_sum_dot_Num)
qed

lemma quad_form_mat_of:
  assumes "length w = n"
  shows "(case np_matvec (mat_of n c) (map Num w) of
            Inl e \<Rightarrow> Inl e
          | Inr cw \<Rightarrow> (case np_vdot (map Num w) cw of Inl e \<Rightarrow> Inl e | Inr q \<Rightarrow> Inr (fsqrt q)))
         = Inr (fsqrt (Num (spec_quad_form n (\<lambda>i. w ! i) c)))"
proof -
  have "(\<Sum>i<n. w ! i * (\<Sum>j<n. c i j * w ! j)) = spec_quad_form n (\<lambda>i. w ! i) c"
    by (simp add: spec_quad_form_def sum_distrib_left mult.assoc)
  then show ?thesis
    by (simp add: np_matvec_mat_of [OF assms] np_vdot_Num [OF assms])
qed

lemma matrix_as_mat_of:
  assumes "length M = n" "\<forall>row \<in> set M. length row = n"
  shows "map (map g) M = map (\<lambda>i. map (\<lambda>j. g (M ! i ! j)) [0..<n]) [0..<n]"
proof (rule nth_equalityI)
  show "length (map (map g) M) = length (map (\<lambda>i. map (\<lambda>j. g (M ! i ! j)) [0..<n]) [0..<n])"
    using assms by simp
next
  fix i assume "i < length (map (map g) M)"
  then have i: "i < n" using assms by simp
  then have "length (M ! i) = n" using assms by simp
  then have "map g (M ! i) = map (\<lambda>j. g (M ! i ! j)) [0..<n]"
    by (intro nth_equalityI) simp_all
  then show "map (map g) M ! i = map (\<lambda>i. map (\<lambda>j. g (M ! i ! j)) [0..<n]) [0..<n] ! i"
    using i assms by simp
qed

lemma fclip_Num: "fclip (Num x) = Num (spec_clip x)"
  by (simp add: fclip_def spec_clip_def max_def min_def)

lemma sum_diag_left:
  "i < n \<Longrightarrow> (\<Sum>k<n. (if i = k then a i else 0) * c k) = a i * c i" for a :: "nat \<Rightarrow> real"
proof -
  assume i: "i < n"
  have "(\<Sum>k<n. (if i = k then a i else 0) * c k) = (\<Sum>k<n. if k = i then a k * c k else 0)"
    by (rule sum.cong) auto
  also have "\<dots> = a i * c i" using i by simp
  finally show ?thesis .
qed

lemma sum_diag_right:
  "j < n \<Longrightarrow> (\<Sum>k<n. c k * (if k = j then a k else 0)) = c j * a j" for a :: "nat \<Rightarrow> real"
proof -
  assume j: "j < n"
  have "(\<Sum>k<n. c k * (if k = j then a k else 0)) = (\<Sum>k<n. if k = j then c k * a k else 0)"
    by (rule sum.cong) auto
  also have "\<dots> = c j * a j" using j by simp
  finally show ?thesis .
qed

lemma snd_series_of_dict: "map snd (series_of_dict d) = map Num (map snd d)"
  by (simp add: series_of_dict_def case_prod_unfold comp_def)


lemma breakdown_volatility_Num:
  assumes "length vols = n" "length ws = n" "length R = n" "\<forall>row \<in> set R. length row = n"
  shows "calculate_correlation_breakdown_volatility (map (map Num) R) (series_of_dict vols) ws
         = Inr (fsqrt (Num (spec_quad_form n (\<lambda>i. snd (ws ! i)) (spec_stressed_cov (map snd vols) R))))"
proof -
  let ?s = "map snd vols"
  let ?c = "\<lambda>i j. spec_clip (15 / 10 * (R ! i ! j))"
  have D: "np_diag (map Num ?s) = mat_of n (\<lambda>i j. if i = j then ?s ! i else 0)"
    using np_diag_Num [of ?s] assms(1) by simp
  have "map (map (\<lambda>x. fclip (fmul x (Num (15 / 10))))) (map (map Num) R)
        = map (map (\<lambda>x. Num (spec_clip (15 / 10 * x)))) R"
    by (simp add: comp_def fclip_Num mult.commute)
  also have "\<dots> = mat_of n ?c"
    unfolding mat_of_def by (rule matrix_as_mat_of [OF assms(3) assms(4)])
  finally have S: "map (map (\<lambda>x. fclip (fmul x (Num (15 / 10))))) (map (map Num) R) = mat_of n ?c" .
  have "mat_of n (\<lambda>i j. \<Sum>k<n. (if i = k then ?s ! i else 0) * ?c k j)
        = mat_of n (\<lambda>i j. ?s ! i * ?c i j)"
    by (rule mat_of_cong) (rule sum_diag_left [where a = "\<lambda>i. map snd vols ! i"], assumption)
  then have DS: "np_matmul (mat_of n (\<lambda>i j. if i = j then ?s ! i else 0)) (mat_of n ?c)
            = Inr (mat_of n (\<lambda>i j. ?s ! i * ?c i j))"
    by (simp only: np_matmul_mat_of)
  have "mat_of n (\<lambda>i j. \<Sum>k<n. (?s ! i * ?c i k) * (if k = j then ?s ! k else 0))
        = mat_of n (spec_stressed_cov ?s R)"
    by (rule mat_of_cong) (simp only: sum_diag_right spec_stressed_cov_def)
  then have DSD: "np_matmul (mat_of n (\<lambda>i j. ?s ! i * ?c i j))
                    (mat_of n (\<lambda>i j. if i = j then ?s ! i else 0))
            = Inr (mat_of n (spec_stressed_cov ?s R))"
    by (simp only: np_matmul_mat_of)
  have len: "length (map snd ws) = n" using assms(2) by simp
  have q: "spec_quad_form n (\<lambda>i. map snd ws ! i) (spec_stressed_cov ?s R)
           = spec_quad_form n (\<lambda>i. snd (ws ! i)) (spec_stressed_cov ?s R)"
    using assms(2) by (simp add: spec_quad_form_def)
  show ?thesis
    unfolding calculate_correlation_breakdown_volatility_def Let_def snd_series_of_dict D S
    by (simp only: DS DSD sum.case quad_form_mat_of [OF len] q)
qed

lemma daily_volatility_Num:
  assumes "validate_weights ws (map fst (columns lr)) = Inr ()" "pd_cov lr = mat_of n S"
    "length ws = n"
  shows "calculate_daily_portfolio_volatility lr ws
         = Inr (fsqrt (Num (spec_quad_form n (\<lambda>i. snd (ws ! i)) S)))"
proof -
  have len: "length (map snd ws) = n" using assms(3) by simp
  have q: "spec_quad_form n (\<lambda>i. map snd ws ! i) S = spec_quad_form n (\<lambda>i. snd (ws ! i)) S"
    using assms(3) by (simp add: spec_quad_form_def)
  show ?thesis
    unfolding calculate_daily_portfolio_volatility_def Let_def snd_series_of_dict assms(2)
    by (simp only: assms(1) sum.case quad_form_mat_of [OF len] q)
qed

subsection \<open>Finite results have finite operands\<close>

lemma is_finite_iff: "is_finite x \<longleftrightarrow> (\<exists>a. x = Num a)"
  by (cases x) (simp_all add: is_finite_def)

lemma fadd_finite: "is_finite (fadd x y) \<Longrightarrow> is_finite x \<and> is_finite y"
  by (cases x; cases y) (simp_all add: is_finite_def)

lemma fmul_finite: "is_finite (fmul x y) \<Longrightarrow> is_finite x \<and> is_finite y"
  by (cases x; cases y) (simp_all add: is_finite_def finf_def split: option.splits if_splits)

lemma foldl_fadd_finite:
  "is_finite (foldl fadd a xs) \<Longrightarrow> is_finite a \<and> (\<forall>x \<in> set xs. is_finite x)"
proof (induction xs arbitrary: a)
  case Nil
  then show ?case by simp
next
  case (Cons x xs)
  from Cons.IH [of "fadd a x"] Cons.prems
  have "is_finite (fadd a x)" and rest: "\<forall>y \<in> set xs. is_finite y" by simp_all
  then show ?case using fadd_finite [of a x] by simp
qed

lemma np_sum_finite: "is_finite (np_sum xs) \<Longrightarrow> \<forall>x \<in> set xs. is_finite x"
  unfolding np_sum_def using foldl_fadd_finite by blast

lemma np_dot_finite:
  assumes "is_finite (np_sum (map2 fmul xs ys))" "length xs = length ys" "i < length xs"
  shows "is_finite (xs ! i)" "is_finite (ys ! i)"
proof -
  have "map2 fmul xs ys ! i \<in> set (map2 fmul xs ys)"
    using assms(2,3) by (intro nth_mem) simp
  then have "is_finite (map2 fmul xs ys ! i)"
    using np_sum_finite [OF assms(1)] by blast
  then have "is_finite (fmul (xs ! i) (ys ! i))"
    using assms(2,3) by simp
  then show "is_finite (xs ! i)" "is_finite (ys ! i)"
    using fmul_finite by blast+
qed

lemma fsqrt_Num_D:
  assumes "fsqrt q = Num v"
  shows "\<exists>r. q = Num r \<and> 0 \<le> r \<and> v = sqrt r"
  using assms by (cases q) (auto split: if_splits)

lemma finite_matrix_mat_of:
  assumes "is_square n C" "\<And>i j. i < n \<Longrightarrow> j < n \<Longrightarrow> is_finite (C ! i ! j)"
  shows "C = mat_of n (\<lambda>i j. fval (C ! i ! j))"
  unfolding mat_of_def
proof (rule nth_equalityI)
  show "length C = length (map (\<lambda>i. map (\<lambda>j. Num (fval (C ! i ! j))) [0..<n]) [0..<n])"
    using assms(1) by (simp add: is_square_def)
next
  fix i assume "i < length C"
  then have i: "i < n" using assms(1) by (simp add: is_square_def)
  then have len: "length (C ! i) = n" using assms(1) by (simp add: is_square_def)
  have "C ! i = map (\<lambda>j. Num (fval (C ! i ! j))) [0..<n]"
  proof (rule nth_equalityI)
    show "length (C ! i) = length (map (\<lambda>j. Num (fval (C ! i ! j))) [0..<n])"
      using len by simp
  next
    fix j assume "j < length (C ! i)"
    then have j: "j < n" using len by simp
    from assms(2) [OF i j] obtain a where "C ! i ! j = Num a"
      by (auto simp add: is_finite_iff)
    then show "C ! i ! j = map (\<lambda>j. Num (fval (C ! i ! j))) [0..<n] ! j"
      using j by simp
  qed
  then show "C ! i = map (\<lambda>i. map (\<lambda>j. Num (fval (C ! i ! j))) [0..<n]) [0..<n] ! i"
    using i by simp
qed

text \<open>A finite volatility means that every entry of the covariance matrix is finite.\<close>

lemma quad_form_finite:
  assumes mv: "np_matvec C (map Num w) = Inr cw"
    and vd: "np_vdot (map Num w) cw = Inr q"
    and fin: "is_finite q"
  shows "C = mat_of (length w) (\<lambda>i j. fval (C ! i ! j))"
proof -
  let ?n = "length w"
  from mv have sq: "is_square ?n C"
    and cw: "cw = map (\<lambda>row. np_sum (map2 fmul row (map Num w))) C"
    by (auto simp add: np_matvec_def split: if_splits)
  from sq have lenC: "length C = ?n" and rows: "\<forall>row \<in> set C. length row = ?n"
    by (simp_all add: is_square_def)
  from vd have q: "q = np_sum (map2 fmul (map Num w) cw)"
    by (auto simp add: np_vdot_def split: if_splits)
  have lencw: "length cw = ?n" using cw lenC by simp
  have "is_finite (C ! i ! j)" if i: "i < ?n" and j: "j < ?n" for i j
  proof -
    have "is_finite (cw ! i)"
      using np_dot_finite(2) [of "map Num w" cw i] fin q lencw i by simp
    then have "is_finite (np_sum (map2 fmul (C ! i) (map Num w)))"
      using cw i lenC by simp
    moreover have "length (C ! i) = ?n" using rows i lenC by simp
    ultimately show ?thesis
      using np_dot_finite(1) [of "C ! i" "map Num w" j] j by simp
  qed
  then show ?thesis by (rule finite_matrix_mat_of [OF sq])
qed

subsection \<open>Risk contribution and diversification\<close>

lemma sum_mult_div: "(\<Sum>i<n. a i * (b i / v)) = (\<Sum>i<n. a i * b i) / v" for v :: real
  by (simp add: sum_divide_distrib)

lemma risk_contribution_values:
  assumes "length ws = n"
  shows "map snd (map2 (\<lambda>(k, w) m. (k, fmul w m)) (series_of_dict ws)
                   (map (\<lambda>x. fdiv x (Num v)) (map (\<lambda>i. Num (g i)) [0..<n])))
         = map2 fmul (map Num (map snd ws)) (map (\<lambda>i. fdiv (Num (g i)) (Num v)) [0..<n])"
  using assms
  by (intro nth_equalityI) (simp_all add: series_of_dict_def case_prod_unfold)

lemma risk_contribution_keys:
  assumes "length ws = n"
  shows "map fst (map2 (\<lambda>(k, w) m. (k, fmul w m)) (series_of_dict ws)
                   (map (\<lambda>x. fdiv x (Num v)) (map (\<lambda>i. Num (g i)) [0..<n])))
         = map fst ws"
  using assms
  by (intro nth_equalityI) (simp_all add: series_of_dict_def case_prod_unfold)







subsection \<open>Concrete values\<close>

lemma sqrt_nine: "sqrt 9 = 3"
  by (rule real_sqrt_unique) simp_all


lemma upt_2: "[0..<2] = [0, Suc 0]"
  by (simp add: upt_rec numeral_2_eq_2)

lemma pd_cov_example:
  "pd_cov \<lparr>nrows = 4, columns = [(''A'', [NaN, Num 0, Num 2, Num 4]),
                                   (''B'', [NaN, Num 0, Num 4, Num 8])]\<rparr>
   = [[Num 4, Num 8], [Num 8, Num 16]]"
  by (simp add: pd_cov_def sample_cov_def finite_pairs_def isnan_def is_finite_def Let_def)

subsection \<open>Binary64 rounding\<close>

lemma powr_eq_power_int: "2 powr (of_int k) = power_int (2::real) k"
  by (simp add: powr_real_of_int power_int_def power_one_over inverse_eq_divide)

lemma round_even_error: "\<bar>of_int (round_even y) - y\<bar> \<le> 1 / 2"
proof -
  have "of_int \<lfloor>y\<rfloor> \<le> y" "y < of_int \<lfloor>y\<rfloor> + 1" by linarith+
  then show ?thesis
    by (auto simp add: round_even_def Let_def)
qed

lemma floor_log2_binade:
  assumes "power_int 2 e \<le> \<bar>x\<bar>" "\<bar>x\<bar> < power_int 2 (e + 1)"
  shows "\<lfloor>log 2 \<bar>x\<bar>\<rfloor> = e"
proof -
  have pos: "0 < \<bar>x\<bar>"
    using assms(1) zero_less_power_int [of "2::real" e] by linarith
  have "2 powr (of_int e) \<le> \<bar>x\<bar> \<and> \<bar>x\<bar> < 2 powr (of_int (e + 1))"
    using assms by (simp only: powr_eq_power_int)
  then show ?thesis
    using floor_log_eq_powr_iff [of "\<bar>x\<bar>" 2 e] pos by simp
qed

lemma b64_round_binade:
  assumes "- 1022 \<le> e" "power_int 2 e \<le> \<bar>x\<bar>" "\<bar>x\<bar> < power_int 2 (e + 1)"
  shows "b64_round x =
     (let r = of_int (round_even (x / power_int 2 (e - 52))) * power_int 2 (e - 52)
      in if 2 ^ 1024 \<le> \<bar>r\<bar> then finf (0 < x) else Num r)"
proof -
  have "0 < \<bar>x\<bar>"
    using assms(2) zero_less_power_int [of "2::real" e] by linarith
  then have nz: "x \<noteq> 0" by auto
  have "max \<lfloor>log 2 \<bar>x\<bar>\<rfloor> (- 1022) = e"
    using floor_log2_binade [OF assms(2,3)] assms(1) by simp
  then show ?thesis
    using nz by (simp add: b64_round_def Let_def)
qed

lemma b64_round_error:
  assumes lo: "power_int 2 (- 1022) \<le> \<bar>x\<bar>" and hi: "\<bar>x\<bar> < 2 ^ 1023"
  shows "\<exists>p. b64_round x = Num p \<and> \<bar>p - x\<bar> \<le> \<bar>x\<bar> / 2 ^ 53"
proof -
  define e where "e = \<lfloor>log 2 \<bar>x\<bar>\<rfloor>"
  have pos: "0 < \<bar>x\<bar>"
    using lo zero_less_power_int [of "2::real" "- 1022"] by linarith
  have "2 powr (of_int e) \<le> \<bar>x\<bar> \<and> \<bar>x\<bar> < 2 powr (of_int (e + 1))"
    using floor_log_eq_powr_iff [of "\<bar>x\<bar>" 2 e] pos by (simp add: e_def)
  then have be: "power_int 2 e \<le> \<bar>x\<bar>" and ab: "\<bar>x\<bar> < power_int 2 (e + 1)"
    by (simp_all only: powr_eq_power_int)
  have "power_int (2::real) (- 1022) < power_int 2 (e + 1)"
    using lo ab by linarith
  then have "- 1022 < e + 1"
    using power_int_increasing [of "e + 1" "- 1022" "2::real"] by (cases "e + 1 \<le> - 1022") simp_all
  then have e_lo: "- 1022 \<le> e" by simp
  define u where "u = power_int (2::real) (e - 52)"
  define r where "r = of_int (round_even (x / u)) * u"
  have upos: "0 < u" by (simp add: u_def)
  have "r - x = (of_int (round_even (x / u)) - x / u) * u"
    using upos by (simp add: r_def field_simps)
  then have "\<bar>r - x\<bar> = \<bar>of_int (round_even (x / u)) - x / u\<bar> * u"
    using upos by (simp add: abs_mult)
  also have "\<dots> \<le> 1 / 2 * u"
    using round_even_error [of "x / u"] upos by (intro mult_right_mono) simp_all
  finally have err: "\<bar>r - x\<bar> \<le> u / 2" by simp
  have "u = power_int 2 e / 2 ^ 52"
    by (simp add: u_def power_int_diff)
  then have "u / 2 = power_int 2 e / 2 ^ 53" by simp
  also have "\<dots> \<le> \<bar>x\<bar> / 2 ^ 53"
    using be by (simp add: divide_right_mono)
  finally have rel: "u / 2 \<le> \<bar>x\<bar> / 2 ^ 53" .
  from err rel have bound: "\<bar>r - x\<bar> \<le> \<bar>x\<bar> / 2 ^ 53" by linarith
  have "\<bar>x\<bar> / 2 ^ 53 \<le> \<bar>x\<bar>" using pos by (simp add: field_simps)
  with bound have "\<bar>r\<bar> \<le> 2 * \<bar>x\<bar>" by linarith
  also have "\<dots> < 2 * 2 ^ 1023" using hi by simp
  finally have small: "\<bar>r\<bar> < 2 ^ 1024" by simp
  have "b64_round x = Num r"
    using b64_round_binade [OF e_lo be ab] small by (simp add: Let_def r_def u_def)
  with bound show ?thesis by blast
qed


lemma fmul64_error:
  assumes "power_int 2 (- 1022) \<le> \<bar>b * r\<bar>" "\<bar>b * r\<bar> < 2 ^ 1023"
  shows "\<exists>p. fmul64 (Num b) (Num r) = Num p \<and> \<bar>p - b * r\<bar> \<le> \<bar>b * r\<bar> / 2 ^ 53"
  using b64_round_error [OF assms] by (simp add: fmul64_def)

lemma b64_literal_shock:
  "b64_round (- 2 / 10) = Num (- 3602879701896397 / 18014398509481984)"
proof -
  have "b64_round (- 2 / 10) =
     (let r = of_int (round_even ((- 2 / 10) / power_int 2 (- 3 - 52))) * power_int 2 (- 3 - 52)
      in if 2 ^ 1024 \<le> \<bar>r\<bar> then finf (0 < (- 2 / 10 :: real)) else Num r)"
    by (rule b64_round_binade) simp_all
  then show ?thesis
    by (simp add: round_even_def Let_def)
qed

lemma b64_literal_result:
  "b64_round (- 3 / 10) = Num (- 5404319552844595 / 18014398509481984)"
proof -
  have "b64_round (- 3 / 10) =
     (let r = of_int (round_even ((- 3 / 10) / power_int 2 (- 2 - 52))) * power_int 2 (- 2 - 52)
      in if 2 ^ 1024 \<le> \<bar>r\<bar> then finf (0 < (- 3 / 10 :: real)) else Num r)"
    by (rule b64_round_binade) simp_all
  then show ?thesis
    by (simp add: round_even_def Let_def)
qed

lemma b64_product_example:
  "fmul64 (Num (15 / 10)) (Num (- 3602879701896397 / 18014398509481984))
     = Num (- 5404319552844596 / 18014398509481984)"
proof -
  let ?x = "15 / 10 * (- 3602879701896397 / 18014398509481984) :: real"
  have "b64_round ?x =
     (let r = of_int (round_even (?x / power_int 2 (- 2 - 52))) * power_int 2 (- 2 - 52)
      in if 2 ^ 1024 \<le> \<bar>r\<bar> then finf (0 < ?x) else Num r)"
    by (rule b64_round_binade) simp_all
  then have "b64_round ?x = Num (- 5404319552844596 / 18014398509481984)"
    by (simp add: round_even_def Let_def)
  then show ?thesis by (simp add: fmul64_def)
qed

lemma b64_minus_one: "fmul64 (Num 2) (Num (- 1 / 2)) = Num (- 1)"
proof -
  have "b64_round (- 1) =
     (let r = of_int (round_even ((- 1) / power_int 2 (0 - 52))) * power_int 2 (0 - 52)
      in if 2 ^ 1024 \<le> \<bar>r\<bar> then finf (0 < (- 1 :: real)) else Num r)"
    by (rule b64_round_binade) simp_all
  then have "b64_round (- 1) = Num (- 1)"
    by (simp add: round_even_def Let_def)
  then show ?thesis by (simp add: fmul64_def)
qed

section \<open>Properties\<close>

text \<open>
  C2, as the code has it. A weight vector whose keys differ from the asset universe,
  whose values sum outside \<open>1 \<plusminus> 1e-6\<close> or that has a negative entry makes each of the
  four weight-consuming operations of the portfolio engine raise one of the three weight
  errors, before any arithmetic on the weights. The stress engine does not validate:
  \<open>calculate_portfolio_loss\<close> returns a value for every weight vector, and
  \<open>calculate_concentration_stress_loss\<close> does so for every shock in \<open>[-1, 0]\<close>.
\<close>

theorem weight_validation_scope:
  assumes "set (map fst ws) \<noteq> set assets \<or> \<bar>sum_list (map snd ws) - 1\<bar> > 1 / 1000000
           \<or> (\<exists>w \<in> set (map snd ws). w < 0)"
  shows "(map fst (columns df) = assets \<longrightarrow>
            (\<exists>e \<in> {WeightMismatchError, WeightSumError, NegativeWeightError}.
                calculate_portfolio_returns df ws = Inl e
              \<and> calculate_daily_portfolio_volatility df ws = Inl e
              \<and> calculate_asset_risk_contribution ws df pv = Inl e))
       \<and> (map fst vols = assets \<longrightarrow>
            (\<exists>e \<in> {WeightMismatchError, WeightSumError, NegativeWeightError}.
                calculate_diversification_benefit vols ws pv = Inl e))
       \<and> (\<exists>v. calculate_portfolio_loss ws rets = Inr v)
       \<and> (fle (Num (- 1)) shock \<and> fle shock (Num 0) \<longrightarrow>
            (\<exists>v. calculate_concentration_stress_loss ws shock = Inr v))"
proof -
  from validate_weights_invalid [OF assms]
  obtain e where e: "e \<in> {WeightMismatchError, WeightSumError, NegativeWeightError}"
    "validate_weights ws assets = Inl e" by auto
  have "map fst (columns df) = assets \<longrightarrow>
          calculate_portfolio_returns df ws = Inl e
        \<and> calculate_daily_portfolio_volatility df ws = Inl e
        \<and> calculate_asset_risk_contribution ws df pv = Inl e"
    using e(2)
    by (simp add: calculate_portfolio_returns_def calculate_daily_portfolio_volatility_def
        calculate_asset_risk_contribution_def)
  moreover have "map fst vols = assets \<longrightarrow> calculate_diversification_benefit vols ws pv = Inl e"
    using e(2) by (simp add: calculate_diversification_benefit_def)
  moreover have "\<exists>v. calculate_portfolio_loss ws rets = Inr v"
    by (simp add: calculate_portfolio_loss_def)
  moreover have "fle (Num (- 1)) shock \<and> fle shock (Num 0) \<longrightarrow>
      (\<exists>v. calculate_concentration_stress_loss ws shock = Inr v)"
    by (simp add: calculate_concentration_stress_loss_def Let_def)
  ultimately show ?thesis using e(1) by blast
qed

theorem weight_validation_scope_witness:
  "(\<exists>e \<in> {WeightMismatchError, WeightSumError, NegativeWeightError}.
      calculate_portfolio_returns
          \<lparr>nrows = 1, columns = [(''A'', [Num (1 / 100)]), (''B'', [Num (2 / 100)])]\<rparr>
          [(''A'', - 2 / 10), (''B'', 15 / 10)] = Inl e
    \<and> calculate_daily_portfolio_volatility
          \<lparr>nrows = 1, columns = [(''A'', [Num (1 / 100)]), (''B'', [Num (2 / 100)])]\<rparr>
          [(''A'', - 2 / 10), (''B'', 15 / 10)] = Inl e
    \<and> calculate_asset_risk_contribution [(''A'', - 2 / 10), (''B'', 15 / 10)]
          \<lparr>nrows = 1, columns = [(''A'', [Num (1 / 100)]), (''B'', [Num (2 / 100)])]\<rparr>
          (Num 1) = Inl e)
   \<and> (\<exists>e \<in> {WeightMismatchError, WeightSumError, NegativeWeightError}.
        calculate_diversification_benefit [(''A'', Num 1), (''B'', Num 2)]
          [(''A'', - 2 / 10), (''B'', 15 / 10)] (Num 1) = Inl e)
   \<and> (\<exists>v. calculate_portfolio_loss [(''A'', - 2 / 10), (''B'', 15 / 10)]
          [(''A'', Num (- 3 / 10)), (''B'', Num (- 2 / 10))] = Inr v)
   \<and> (\<exists>v. calculate_concentration_stress_loss [(''A'', - 2 / 10), (''B'', 15 / 10)]
          (Num (- 4 / 10)) = Inr v)"
  using weight_validation_scope [where ws = "[(''A'', - 2 / 10), (''B'', 15 / 10)]"
      and assets = "[''A'', ''B'']"
      and df = "\<lparr>nrows = 1, columns = [(''A'', [Num (1 / 100)]), (''B'', [Num (2 / 100)])]\<rparr>"
      and vols = "[(''A'', Num 1), (''B'', Num 2)]" and pv = "Num 1"
      and rets = "[(''A'', Num (- 3 / 10)), (''B'', Num (- 2 / 10))]"
      and shock = "Num (- 4 / 10)"]
  by simp

text \<open>
  C2, as stated, fails: the weights \<open>{A: -0.2, B: 1.5}\<close> are rejected by
  \<open>validate_weights\<close> (their sum is 1.3, and one of them is negative), and both
  stress-engine operations return a result on them.
\<close>

theorem stress_loss_unvalidated_counterexample:
  "validate_weights [(''A'', - 2 / 10), (''B'', 15 / 10)] [''A'', ''B''] = Inl WeightSumError
   \<and> calculate_portfolio_loss [(''A'', - 2 / 10), (''B'', 15 / 10)]
         [(''A'', Num (- 3 / 10)), (''B'', Num (- 2 / 10))] = Inr (Num (- 24 / 100))
   \<and> calculate_concentration_stress_loss [(''A'', - 2 / 10), (''B'', 15 / 10)] (Num (- 4 / 10))
        = Inr [(''A'', Num (8 / 100)), (''B'', Num (- 6 / 10))]"
  by (simp add: validate_weights_def calculate_portfolio_loss_def
      calculate_concentration_stress_loss_def series_of_dict_def pd_align_def pd_sum_def
      np_sum_def dropna_def isnan_def Let_def)

text \<open>
  C9. \<open>validate_weights\<close> checks the key set first, then the sum, then the signs: a
  weight vector that violates several conditions raises the error of the first check
  that fails. The weights \<open>{A: -0.2, B: 1.5}\<close> over the universe \<open>{A, B}\<close> raise the
  weight-sum error, not the negative-weight error.
\<close>

theorem validate_weights_order:
  "(set (map fst ws) \<noteq> set assets \<longrightarrow> validate_weights ws assets = Inl WeightMismatchError)
   \<and> (set (map fst ws) = set assets \<and> \<bar>sum_list (map snd ws) - 1\<bar> > 1 / 1000000
        \<longrightarrow> validate_weights ws assets = Inl WeightSumError)
   \<and> (set (map fst ws) = set assets \<and> \<not> \<bar>sum_list (map snd ws) - 1\<bar> > 1 / 1000000
        \<and> (\<exists>w \<in> set (map snd ws). w < 0)
        \<longrightarrow> validate_weights ws assets = Inl NegativeWeightError)
   \<and> validate_weights [(''A'', - 2 / 10), (''B'', 15 / 10)] [''A'', ''B''] = Inl WeightSumError"
  by (simp add: validate_weights_def Let_def)

theorem validate_weights_order_witness:
  "set (map fst [(''A'', 1::real), (''C'', 1)]) \<noteq> set [''A'', ''B'']
   \<and> validate_weights [(''A'', 1), (''C'', 1)] [''A'', ''B''] = Inl WeightMismatchError
   \<and> \<bar>sum_list (map snd [(''A'', 5 / 10 :: real), (''B'', 6 / 10)]) - 1\<bar> > 1 / 1000000
   \<and> validate_weights [(''A'', 5 / 10), (''B'', 6 / 10)] [''A'', ''B''] = Inl WeightSumError
   \<and> (\<exists>w \<in> set (map snd [(''A'', - 2 / 10 :: real), (''B'', 12 / 10)]). w < 0)
   \<and> validate_weights [(''A'', - 2 / 10), (''B'', 12 / 10)] [''A'', ''B'']
         = Inl NegativeWeightError"
  using validate_weights_order [of "[(''A'', 1), (''C'', 1)]" "[''A'', ''B'']"]
    validate_weights_order [of "[(''A'', 5 / 10), (''B'', 6 / 10)]" "[''A'', ''B'']"]
    validate_weights_order [of "[(''A'', - 2 / 10), (''B'', 12 / 10)]" "[''A'', ''B'']"]
  by (simp add: doubleton_eq_iff)

text \<open>
  C10. The annual return of an empty series of daily returns is exactly 0.0: the
  product over no rows is 1, and nothing is raised.
\<close>

theorem annual_return_empty:
  "calculate_portfolio_annual_return [] = Num 0"
  by (simp add: calculate_portfolio_annual_return_def pd_prod_def np_prod_def dropna_def fsub_def)

text \<open>
  C3. \<open>daily_returns\<close> raises \<open>EmptyInputError\<close> whenever the price table has no rows.
  \<open>daily_log_returns\<close> has no emptiness check: it raises nothing on any price table,
  empty or not, and returns a table of the same shape whose cell at row \<open>t > 0\<close> is
  \<open>ln(prices[t]) - ln(prices[t-1])\<close> (for positive prices, where the logarithm is
  finite).
\<close>

theorem returns_empty_guards:
  "(nrows p = 0 \<longrightarrow> daily_returns p = Inl EmptyInputError)
   \<and> (\<forall>e. daily_log_returns p \<noteq> Inl e)
   \<and> (\<exists>lr. daily_log_returns p = Inr lr \<and> nrows lr = nrows p
         \<and> map fst (columns lr) = map fst (columns p)
         \<and> (\<forall>i < length (columns p).
              length (snd (columns lr ! i)) = length (snd (columns p ! i))
              \<and> (\<forall>t. 0 < t \<and> t < length (snd (columns p ! i))
                     \<and> 0 < snd (columns p ! i) ! t \<and> 0 < snd (columns p ! i) ! (t - 1)
                  \<longrightarrow> snd (columns lr ! i) ! t
                        = Num (ln (snd (columns p ! i) ! t) - ln (snd (columns p ! i) ! (t - 1))))))"
proof -
  have "nrows p = 0 \<longrightarrow> daily_returns p = Inl EmptyInputError"
    by (simp add: daily_returns_def df_empty_def)
  moreover have "\<forall>e. daily_log_returns p \<noteq> Inl e"
    by (simp add: daily_log_returns_def)
  moreover have "\<forall>i < length (columns p).
      length (lagged fsub (map (\<lambda>x. flog (Num x)) (snd (columns p ! i)))) = length (snd (columns p ! i))
      \<and> (\<forall>t. 0 < t \<and> t < length (snd (columns p ! i))
             \<and> 0 < snd (columns p ! i) ! t \<and> 0 < snd (columns p ! i) ! (t - 1)
          \<longrightarrow> lagged fsub (map (\<lambda>x. flog (Num x)) (snd (columns p ! i))) ! t
                = Num (ln (snd (columns p ! i) ! t) - ln (snd (columns p ! i) ! (t - 1))))"
    using log_diff_nth by (simp add: length_lagged)
  ultimately show ?thesis
    by (simp add: daily_log_returns_def case_prod_unfold comp_def)
qed

theorem returns_empty_guards_witness:
  "daily_returns \<lparr>nrows = 0, columns = [(''A'', [])]\<rparr> = Inl EmptyInputError
   \<and> (\<exists>lr. daily_log_returns \<lparr>nrows = 2, columns = [(''A'', [1, exp 1])]\<rparr> = Inr lr
        \<and> snd (columns lr ! 0) ! 1 = Num 1)"
proof -
  from returns_empty_guards [of "\<lparr>nrows = 2, columns = [(''A'', [1, exp 1])]\<rparr>"]
  obtain lr where lr: "daily_log_returns \<lparr>nrows = 2, columns = [(''A'', [1, exp 1])]\<rparr> = Inr lr"
    and cells: "\<forall>t. 0 < t \<and> t < 2 \<and> 0 < [1, exp 1 :: real] ! t \<and> 0 < [1, exp 1 :: real] ! (t - 1)
                  \<longrightarrow> snd (columns lr ! 0) ! t = Num (ln ([1, exp 1] ! t) - ln ([1, exp 1] ! (t - 1)))"
    by auto
  from cells have "snd (columns lr ! 0) ! 1 = Num 1"
    by (drule_tac x = 1 in spec) simp
  with lr show ?thesis
    using returns_empty_guards [of "\<lparr>nrows = 0, columns = [(''A'', [])]\<rparr>"] by simp
qed

text \<open>
  C4. For every strictly positive value series, every entry of the drawdown series that
  \<open>calculate_drawdown\<close> returns is \<open>(value - running_max) / running_max\<close>, is at most
  0, and is 0 exactly at the dates where the value is the running maximum; the maximum
  drawdown returned is the minimum of the drawdown series (NaN for a series with no
  entry, which has no minimum).
\<close>

theorem drawdown_properties:
  assumes "\<forall>v \<in> set vs. 0 < v"
  shows "fst (calculate_drawdown (map Num vs)) = map (\<lambda>t. Num (spec_drawdown vs t)) [0..<length vs]
       \<and> (\<forall>t < length vs. spec_drawdown vs t \<le> 0
             \<and> (spec_drawdown vs t = 0 \<longleftrightarrow> vs ! t = spec_running_max vs t))
       \<and> (vs \<noteq> [] \<longrightarrow> snd (calculate_drawdown (map Num vs))
                          = Num (Min (spec_drawdown vs ` {..<length vs})))
       \<and> (vs = [] \<longrightarrow> snd (calculate_drawdown (map Num vs)) = NaN)"
proof -
  have dd: "fst (calculate_drawdown (map Num vs)) = map (\<lambda>t. Num (spec_drawdown vs t)) [0..<length vs]"
    by (rule drawdown_Num [OF assms])
  have sign: "\<forall>t < length vs. spec_drawdown vs t \<le> 0
             \<and> (spec_drawdown vs t = 0 \<longleftrightarrow> vs ! t = spec_running_max vs t)"
  proof (intro allI impI)
    fix t assume t: "t < length vs"
    then have "0 < vs ! t" using assms by simp
    with running_max_ge [OF t] have pos: "0 < spec_running_max vs t" by linarith
    show "spec_drawdown vs t \<le> 0 \<and> (spec_drawdown vs t = 0 \<longleftrightarrow> vs ! t = spec_running_max vs t)"
      using pos running_max_ge [OF t]
      by (simp add: spec_drawdown_def divide_le_0_iff)
  qed
  have snd_eq: "snd (calculate_drawdown (map Num vs)) = pd_min (fst (calculate_drawdown (map Num vs)))"
    by (simp add: calculate_drawdown_def Let_def)
  have mdd: "vs \<noteq> [] \<longrightarrow> snd (calculate_drawdown (map Num vs))
                          = Num (Min (spec_drawdown vs ` {..<length vs}))"
  proof
    assume ne: "vs \<noteq> []"
    have "fst (calculate_drawdown (map Num vs)) = map Num (map (spec_drawdown vs) [0..<length vs])"
      by (simp add: dd comp_def)
    moreover have "map (spec_drawdown vs) [0..<length vs] \<noteq> []" using ne by simp
    ultimately have "snd (calculate_drawdown (map Num vs))
                     = Num (Min (set (map (spec_drawdown vs) [0..<length vs])))"
      using snd_eq pd_min_Num by metis
    then show "snd (calculate_drawdown (map Num vs)) = Num (Min (spec_drawdown vs ` {..<length vs}))"
      by (simp add: atLeast0LessThan)
  qed
  have "vs = [] \<longrightarrow> snd (calculate_drawdown (map Num vs)) = NaN"
    by (simp add: calculate_drawdown_def Let_def pd_cummax_def pd_min_def dropna_def)
  with dd sign mdd show ?thesis by blast
qed


theorem drawdown_properties_witness:
  "fst (calculate_drawdown (map Num [100, 110, 99, 121]))
       = [Num 0, Num 0, Num (- 1 / 10), Num 0]
   \<and> snd (calculate_drawdown (map Num [100, 110, 99, 121])) = Num (- 1 / 10)"
proof -
  have pos: "\<forall>v \<in> set [100, 110, 99, 121 :: real]. 0 < v" by simp
  have four: "{..<length [100, 110, 99, 121 :: real]} = {0, Suc 0, 2, 3}" by auto
  have upt: "[0..<length [100, 110, 99, 121 :: real]] = [0, Suc 0, 2, 3]"
    by (simp add: upt_rec)
  have m: "spec_running_max [100, 110, 99, 121] 0 = 100"
    "spec_running_max [100, 110, 99, 121] (Suc 0) = 110"
    "spec_running_max [100, 110, 99, 121] 2 = 110"
    "spec_running_max [100, 110, 99, 121] 3 = 121"
    by (simp_all add: spec_running_max_def numeral_2_eq_2 numeral_3_eq_3)
  have d: "spec_drawdown [100, 110, 99, 121] 0 = 0"
    "spec_drawdown [100, 110, 99, 121] (Suc 0) = 0"
    "spec_drawdown [100, 110, 99, 121] 2 = - 1 / 10"
    "spec_drawdown [100, 110, 99, 121] 3 = 0"
    by (simp_all add: spec_drawdown_def m)
  note th = drawdown_properties [OF pos]
  from th have a: "fst (calculate_drawdown (map Num [100, 110, 99, 121]))
      = map (\<lambda>t. Num (spec_drawdown [100, 110, 99, 121] t)) [0..<length [100, 110, 99, 121 :: real]]"
    by (rule conjunct1)
  from th have b: "snd (calculate_drawdown (map Num [100, 110, 99, 121]))
      = Num (Min (spec_drawdown [100, 110, 99, 121] ` {..<length [100, 110, 99, 121 :: real]}))"
    by blast
  have a': "fst (calculate_drawdown (map Num [100, 110, 99, 121]))
       = [Num 0, Num 0, Num (- 1 / 10), Num 0]"
    unfolding a upt by (simp add: d)
  have b': "snd (calculate_drawdown (map Num [100, 110, 99, 121])) = Num (- 1 / 10)"
    unfolding b four by (simp add: d)
  from a' b' show ?thesis by blast
qed

text \<open>
  C6. \<open>calculate_sharpe\<close> raises \<open>UndefinedRatioError\<close> if and only if the annual
  volatility of some asset is at most 0, and raises nothing else. Otherwise it returns,
  for every asset, \<open>mean(daily_return) * trading_days / annual_volatility\<close>: the mean
  of the daily returns is scaled by the number of trading days, the volatility is taken
  as it is given.
\<close>

theorem sharpe_guard_and_value:
  "(calculate_sharpe td dr av = Inl UndefinedRatioError \<longleftrightarrow> (\<exists>v \<in> set (map snd av). fle v (Num 0)))
   \<and> (\<forall>e. calculate_sharpe td dr av = Inl e \<longrightarrow> e = UndefinedRatioError)
   \<and> (calculate_sharpe td dr (series_of_dict vols) = Inl UndefinedRatioError
        \<longleftrightarrow> (\<exists>\<sigma> \<in> set (map snd vols). \<sigma> \<le> 0))
   \<and> (\<not> (\<exists>v \<in> set (map snd av). fle v (Num 0)) \<longrightarrow>
        (\<exists>res. calculate_sharpe td dr av = Inr res
           \<and> (\<forall>a xs v. map_of (columns dr) a = Some xs \<and> map_of av a = Some v \<longrightarrow>
                 map_of res a = Some (fdiv (fmul (pd_mean xs) (Num td)) v))
           \<and> (\<forall>a rs \<sigma>. map_of (columns dr) a = Some (NaN # map Num rs) \<and> rs \<noteq> []
                   \<and> map_of av a = Some (Num \<sigma>) \<longrightarrow>
                 map_of res a = Some (Num (sum_list rs / real (length rs) * td / \<sigma>)))))"
proof -
  have iff: "calculate_sharpe td dr av = Inl UndefinedRatioError
             \<longleftrightarrow> (\<exists>v \<in> set (map snd av). fle v (Num 0))" for av
    by (simp add: calculate_sharpe_def Let_def)
  have only: "\<forall>e. calculate_sharpe td dr av = Inl e \<longrightarrow> e = UndefinedRatioError"
    by (simp add: calculate_sharpe_def Let_def)
  have fin: "(\<exists>v \<in> set (map snd (series_of_dict vols)). fle v (Num 0))
             \<longleftrightarrow> (\<exists>\<sigma> \<in> set (map snd vols). \<sigma> \<le> 0)"
    by (force simp add: series_of_dict_def)
  have val: "\<exists>res. calculate_sharpe td dr av = Inr res
           \<and> (\<forall>a xs v. map_of (columns dr) a = Some xs \<and> map_of av a = Some v \<longrightarrow>
                 map_of res a = Some (fdiv (fmul (pd_mean xs) (Num td)) v))
           \<and> (\<forall>a rs \<sigma>. map_of (columns dr) a = Some (NaN # map Num rs) \<and> rs \<noteq> []
                   \<and> map_of av a = Some (Num \<sigma>) \<longrightarrow>
                 map_of res a = Some (Num (sum_list rs / real (length rs) * td / \<sigma>)))"
    if ok: "\<not> (\<exists>v \<in> set (map snd av). fle v (Num 0))"
  proof -
    let ?means = "map (\<lambda>(c, xs). (c, fmul (pd_mean xs) (Num td))) (columns dr)"
    let ?res = "pd_align fdiv ?means av"
    have res: "calculate_sharpe td dr av = Inr ?res"
      using ok by (simp add: calculate_sharpe_def Let_def)
    have gen: "map_of ?res a = Some (fdiv (fmul (pd_mean xs) (Num td)) v)"
      if "map_of (columns dr) a = Some xs" "map_of av a = Some v" for a xs v
    proof -
      have "map_of ?means a = Some (fmul (pd_mean xs) (Num td))"
        using that(1) by (simp add: map_of_map_values)
      then show ?thesis using that(2) by (rule map_of_pd_align)
    qed
    have fin: "map_of ?res a = Some (Num (sum_list rs / real (length rs) * td / \<sigma>))"
      if "map_of (columns dr) a = Some (NaN # map Num rs)" "rs \<noteq> []" "map_of av a = Some (Num \<sigma>)"
      for a rs \<sigma>
    proof -
      have "(a, Num \<sigma>) \<in> set av" using that(3) by (rule map_of_SomeD)
      then have "Num \<sigma> \<in> set (map snd av)" by force
      with ok have "\<not> fle (Num \<sigma>) (Num 0)" by blast
      then have "\<sigma> \<noteq> 0" by auto
      then show ?thesis
        using gen [OF that(1) that(3)] pd_mean_Num [OF that(2)] by simp
    qed
    from res gen fin show ?thesis by blast
  qed
  from iff [of av] only iff [of "series_of_dict vols"] fin val show ?thesis by blast
qed

theorem sharpe_guard_and_value_witness:
  "calculate_sharpe 252 \<lparr>nrows = 3, columns = [(''A'', [NaN, Num (1 / 100), Num (3 / 100)])]\<rparr>
      [(''A'', Num 0)] = Inl UndefinedRatioError
   \<and> (\<exists>res. calculate_sharpe 252
          \<lparr>nrows = 3, columns = [(''A'', [NaN, Num (1 / 100), Num (3 / 100)])]\<rparr>
          [(''A'', Num (2 / 10))] = Inr res
        \<and> map_of res ''A'' = Some (Num (252 / 10)))"
proof -
  let ?dr = "\<lparr>nrows = 3, columns = [(''A'', [NaN, Num (1 / 100), Num (3 / 100)])]\<rparr>"
  have bad: "\<exists>v \<in> set (map snd [(''A'', Num 0)]). fle v (Num 0)" by simp
  have ok: "\<not> (\<exists>v \<in> set (map snd [(''A'', Num (2 / 10))]). fle v (Num 0))" by simp
  have one: "calculate_sharpe 252 ?dr [(''A'', Num 0)] = Inl UndefinedRatioError"
    using sharpe_guard_and_value [of 252 ?dr "[(''A'', Num 0)]" "[]"] bad by blast
  from sharpe_guard_and_value [of 252 ?dr "[(''A'', Num (2 / 10))]" "[]"] ok
  obtain res where res: "calculate_sharpe 252 ?dr [(''A'', Num (2 / 10))] = Inr res"
    and fin: "\<forall>a rs \<sigma>. map_of (columns ?dr) a = Some (NaN # map Num rs) \<and> rs \<noteq> []
                   \<and> map_of [(''A'', Num (2 / 10))] a = Some (Num \<sigma>) \<longrightarrow>
                 map_of res a = Some (Num (sum_list rs / real (length rs) * 252 / \<sigma>))"
    by blast
  have "map_of res ''A'' = Some (Num (sum_list [1 / 100, 3 / 100] / real (length [1 / 100, 3 / 100 :: real]) * 252 / (2 / 10)))"
    using fin [rule_format, of "''A''" "[1 / 100, 3 / 100]" "2 / 10"] by simp
  then have "map_of res ''A'' = Some (Num (252 / 10))" by simp
  with one res show ?thesis by blast
qed

text \<open>
  C1, as the code has it. Whenever the portfolio volatility that
  \<open>calculate_daily_portfolio_volatility\<close> returns for a table of log returns and a
  weight vector is a finite number other than 0, \<open>calculate_asset_risk_contribution\<close>
  on the same inputs and that volatility returns one finite contribution per asset, and
  the contributions sum to the volatility (Euler decomposition; exactly, in exact
  arithmetic), which is \<open>sqrt(w' * S * w)\<close> for the covariance matrix \<open>S\<close> of the table.
\<close>

theorem euler_risk_decomposition:
  assumes vol: "calculate_daily_portfolio_volatility lr ws = Inr (Num v)" and nz: "v \<noteq> 0"
  shows "\<exists>rc. calculate_asset_risk_contribution ws lr (Num v) = Inr rc
            \<and> map fst rc = map fst ws
            \<and> (\<forall>x \<in> set (map snd rc). is_finite x)
            \<and> np_sum (map snd rc) = Num v
            \<and> pd_sum (map snd rc) = Num v
            \<and> v = sqrt (spec_quad_form (length ws) (\<lambda>i. snd (ws ! i))
                          (\<lambda>i j. fval (pd_cov lr ! i ! j)))"
proof -
  let ?n = "length ws"
  let ?w = "map snd ws"
  let ?C = "pd_cov lr"
  let ?s = "\<lambda>i j. fval (?C ! i ! j)"
  let ?g = "\<lambda>i. \<Sum>j<?n. ?s i j * ?w ! j"
  have wts: "map snd (series_of_dict ws) = map Num ?w" by (rule snd_series_of_dict)
  have len: "length ?w = ?n" by simp
  from vol obtain cw q where valid: "validate_weights ws (map fst (columns lr)) = Inr ()"
    and mv: "np_matvec ?C (map Num ?w) = Inr cw"
    and vd: "np_vdot (map Num ?w) cw = Inr q"
    and sq: "fsqrt q = Num v"
    by (auto simp add: calculate_daily_portfolio_volatility_def Let_def wts
        split: sum.splits)
  from fsqrt_Num_D [OF sq] obtain r where r: "q = Num r" "0 \<le> r" "v = sqrt r" by blast
  have "is_finite q" using r(1) by (simp add: is_finite_def)
  from quad_form_finite [OF mv vd this]
  have C: "?C = mat_of ?n ?s" by simp
  have mv': "np_matvec ?C (map Num ?w) = Inr (map (\<lambda>i. Num (?g i)) [0..<?n])"
    using np_matvec_mat_of [OF len, of ?s] C by simp
  with mv have cw: "cw = map (\<lambda>i. Num (?g i)) [0..<?n]" by simp
  have "np_vdot (map Num ?w) cw = Inr (Num (\<Sum>i<?n. ?w ! i * ?g i))"
    unfolding cw by (rule np_vdot_Num [OF len])
  with vd r(1) have r_eq: "r = (\<Sum>i<?n. ?w ! i * ?g i)" by simp
  have qf: "r = spec_quad_form ?n (\<lambda>i. snd (ws ! i)) ?s"
    unfolding r_eq by (simp add: spec_quad_form_def sum_distrib_left mult.assoc)
  let ?rc = "map2 (\<lambda>(k, w) m. (k, fmul w m)) (series_of_dict ws)
               (map (\<lambda>x. fdiv x (Num v)) (map (\<lambda>i. Num (?g i)) [0..<?n]))"
  have res: "calculate_asset_risk_contribution ws lr (Num v) = Inr ?rc"
    unfolding calculate_asset_risk_contribution_def Let_def wts
    by (simp only: valid mv' sum.case)
  have keys: "map fst ?rc = map fst ws"
    by (rule risk_contribution_keys) simp
  have "map snd ?rc = map2 fmul (map Num ?w) (map (\<lambda>i. fdiv (Num (?g i)) (Num v)) [0..<?n])"
    by (rule risk_contribution_values) simp
  also have "\<dots> = map2 fmul (map (\<lambda>i. Num (?w ! i)) [0..<?n]) (map (\<lambda>i. Num (?g i / v)) [0..<?n])"
    using Num_list_upt [of ?w] nz by simp
  also have "\<dots> = map Num (map (\<lambda>i. ?w ! i * (?g i / v)) [0..<?n])"
    by (simp add: zip_map_same)
  finally have vals: "map snd ?rc = map Num (map (\<lambda>i. ?w ! i * (?g i / v)) [0..<?n])" .
  have "(\<Sum>i<?n. ?w ! i * (?g i / v)) = (\<Sum>i<?n. ?w ! i * ?g i) / v"
    by (rule sum_mult_div)
  also have "\<dots> = r / sqrt r" using r_eq r(3) by simp
  also have "\<dots> = v" using real_div_sqrt [OF r(2)] r(3) by simp
  finally have total: "(\<Sum>i<?n. ?w ! i * (?g i / v)) = v" .
  have np: "np_sum (map snd ?rc) = Num v"
    unfolding vals by (simp only: np_sum_Num sum_list_upt total)
  have pd: "pd_sum (map snd ?rc) = Num v"
    unfolding vals pd_sum_def dropna_Num by (simp only: np_sum_Num sum_list_upt total)
  have fin: "\<forall>x \<in> set (map snd ?rc). is_finite x"
    unfolding vals by (auto simp add: is_finite_def)
  from res keys fin np pd qf r(3) show ?thesis by blast
qed

theorem euler_risk_decomposition_witness:
  "calculate_daily_portfolio_volatility
     \<lparr>nrows = 4, columns = [(''A'', [NaN, Num 0, Num 2, Num 4]),
                             (''B'', [NaN, Num 0, Num 4, Num 8])]\<rparr>
     [(''A'', 1 / 2), (''B'', 1 / 2)] = Inr (Num 3)
   \<and> (3::real) \<noteq> 0
   \<and> calculate_asset_risk_contribution [(''A'', 1 / 2), (''B'', 1 / 2)]
        \<lparr>nrows = 4, columns = [(''A'', [NaN, Num 0, Num 2, Num 4]),
                                (''B'', [NaN, Num 0, Num 4, Num 8])]\<rparr> (Num 3)
      = Inr [(''A'', Num 1), (''B'', Num 2)]
   \<and> (\<exists>rc. calculate_asset_risk_contribution [(''A'', 1 / 2), (''B'', 1 / 2)]
        \<lparr>nrows = 4, columns = [(''A'', [NaN, Num 0, Num 2, Num 4]),
                                (''B'', [NaN, Num 0, Num 4, Num 8])]\<rparr> (Num 3) = Inr rc
        \<and> np_sum (map snd rc) = Num 3 \<and> pd_sum (map snd rc) = Num 3)"
proof -
  let ?lr = "\<lparr>nrows = 4, columns = [(''A'', [NaN, Num 0, Num 2, Num 4]),
                                    (''B'', [NaN, Num 0, Num 4, Num 8])]\<rparr>"
  let ?ws = "[(''A'', 1 / 2 :: real), (''B'', 1 / 2)]"
  have vol: "calculate_daily_portfolio_volatility ?lr ?ws = Inr (Num 3)"
    by (simp add: calculate_daily_portfolio_volatility_def validate_weights_def pd_cov_example
        np_matvec_def np_vdot_def is_square_def np_sum_def series_of_dict_def Let_def sqrt_nine)
  have nz: "(3::real) \<noteq> 0" by simp
  have rc: "calculate_asset_risk_contribution ?ws ?lr (Num 3) = Inr [(''A'', Num 1), (''B'', Num 2)]"
    by (simp add: calculate_asset_risk_contribution_def validate_weights_def pd_cov_example
        np_matvec_def is_square_def np_sum_def series_of_dict_def Let_def)
  from euler_risk_decomposition [OF vol nz] vol nz rc show ?thesis by blast
qed

text \<open>
  C1, as stated for every valid weight vector and table, fails where the volatility is
  0 or NaN. In the first table the covariance matrix, taken pairwise over the rows
  where both cells are finite, is \<open>[[1, -4], [-4, 7]]\<close>: with equal weights the
  volatility is 0.0, the marginal contributions are \<open>-1.5 / 0.0\<close> and \<open>1.5 / 0.0\<close>,
  the contributions are the two infinities, and their sum is NaN whether NaN is skipped
  or not. In the second table only one log return is left: the covariance and the
  volatility are NaN, the contribution is NaN, and its sum is 0.0 when NaN is skipped
  and NaN otherwise, which is not the volatility.
\<close>

theorem euler_degenerate_counterexample:
  "validate_weights [(''A'', 1 / 2), (''B'', 1 / 2)] [''A'', ''B''] = Inr ()
   \<and> calculate_daily_portfolio_volatility
        \<lparr>nrows = 5, columns = [(''A'', [NaN, Num (- 2), Num 0, Num (- 1), NaN]),
                                (''B'', [NaN, Num 2, Num (- 2), NaN, Num 3])]\<rparr>
        [(''A'', 1 / 2), (''B'', 1 / 2)] = Inr (Num 0)
   \<and> calculate_asset_risk_contribution [(''A'', 1 / 2), (''B'', 1 / 2)]
        \<lparr>nrows = 5, columns = [(''A'', [NaN, Num (- 2), Num 0, Num (- 1), NaN]),
                                (''B'', [NaN, Num 2, Num (- 2), NaN, Num 3])]\<rparr> (Num 0)
      = Inr [(''A'', NInf), (''B'', PInf)]
   \<and> np_sum (map snd [(''A'', NInf), (''B'', PInf)]) = NaN
   \<and> pd_sum (map snd [(''A'', NInf), (''B'', PInf)]) = NaN
   \<and> validate_weights [(''A'', 1)] [''A''] = Inr ()
   \<and> calculate_daily_portfolio_volatility
        \<lparr>nrows = 2, columns = [(''A'', [NaN, Num (1 / 100)])]\<rparr> [(''A'', 1)] = Inr NaN
   \<and> calculate_asset_risk_contribution [(''A'', 1)]
        \<lparr>nrows = 2, columns = [(''A'', [NaN, Num (1 / 100)])]\<rparr> NaN = Inr [(''A'', NaN)]
   \<and> pd_sum (map snd [(''A'', NaN)]) = Num 0
   \<and> np_sum (map snd [(''A'', NaN)]) = NaN"
  by (simp add: validate_weights_def calculate_daily_portfolio_volatility_def
      calculate_asset_risk_contribution_def pd_cov_def sample_cov_def finite_pairs_def
      np_matvec_def np_vdot_def is_square_def np_sum_def pd_sum_def dropna_def isnan_def
      series_of_dict_def is_finite_def finf_def Let_def)



text \<open>
  C8. For finite inputs of matching dimension \<open>n\<close>,
  \<open>calculate_correlation_breakdown_volatility\<close> returns
  \<open>sqrt(w' * (D * clip(1.5 * Corr, -1, 1) * D) * w)\<close>, with the asset volatilities on
  the diagonal of \<open>D\<close> (NaN when the quadratic form is negative, as \<open>np.sqrt\<close> gives).
  The portfolio engine applies the same quadratic-form formula to the covariance matrix
  of the log returns, and the annualized value is the daily one times \<open>sqrt(252)\<close>.
\<close>

theorem correlation_breakdown_formula:
  assumes "length vols = n" "length ws = n" "length R = n" "\<forall>row \<in> set R. length row = n"
  shows "calculate_correlation_breakdown_volatility (map (map Num) R) (series_of_dict vols) ws
           = Inr (fsqrt (Num (spec_quad_form n (\<lambda>i. snd (ws ! i))
                                (spec_stressed_cov (map snd vols) R))))
       \<and> (validate_weights ws (map fst (columns lr)) = Inr () \<and> pd_cov lr = mat_of n S \<longrightarrow>
            calculate_daily_portfolio_volatility lr ws
              = Inr (fsqrt (Num (spec_quad_form n (\<lambda>i. snd (ws ! i)) S))))
       \<and> calculate_annual_correlation_breakdown_volatility (Num d) = Num (d * sqrt 252)"
  using breakdown_volatility_Num [OF assms] daily_volatility_Num [of ws lr n S] assms(2)
  by (simp add: calculate_annual_correlation_breakdown_volatility_def)

theorem correlation_breakdown_formula_witness:
  "calculate_correlation_breakdown_volatility
      [[Num 1, Num (8 / 10)], [Num (8 / 10), Num 1]] [(''A'', Num 2), (''B'', Num 2)]
      [(''A'', 1 / 2), (''B'', 1 / 2)] = Inr (Num 2)
   \<and> calculate_daily_portfolio_volatility
        \<lparr>nrows = 4, columns = [(''A'', [NaN, Num 0, Num 2, Num 4]),
                                (''B'', [NaN, Num 0, Num 4, Num 8])]\<rparr>
        [(''A'', 1 / 2), (''B'', 1 / 2)] = Inr (Num 3)
   \<and> calculate_annual_correlation_breakdown_volatility (Num 2) = Num (2 * sqrt 252)"
proof -
  let ?vols = "[(''A'', 2 :: real), (''B'', 2)]"
  let ?ws = "[(''A'', 1 / 2 :: real), (''B'', 1 / 2)]"
  let ?R = "[[1, 8 / 10], [8 / 10, 1 :: real]]"
  let ?lr = "\<lparr>nrows = 4, columns = [(''A'', [NaN, Num 0, Num 2, Num 4]),
                                    (''B'', [NaN, Num 0, Num 4, Num 8])]\<rparr>"
  let ?S = "\<lambda>i j. [[4, 8], [8, 16 :: real]] ! i ! j"
  have s: "length ?vols = 2" "length ?ws = 2" "length ?R = 2" "\<forall>row \<in> set ?R. length row = 2"
    by simp_all
  have valid: "validate_weights ?ws (map fst (columns ?lr)) = Inr ()"
    by (simp add: validate_weights_def)
  have cov: "pd_cov ?lr = mat_of 2 ?S"
    by (simp add: pd_cov_example mat_of_def upt_2)
  have q1: "spec_quad_form 2 (\<lambda>i. snd (?ws ! i)) (spec_stressed_cov (map snd ?vols) ?R) = 4"
    by (simp add: spec_quad_form_def spec_stressed_cov_def spec_clip_def numeral_2_eq_2)
  have q2: "spec_quad_form 2 (\<lambda>i. snd (?ws ! i)) ?S = 9"
    by (simp add: spec_quad_form_def numeral_2_eq_2)
  note th = correlation_breakdown_formula [OF s, of ?lr ?S 2]
  from th have "calculate_correlation_breakdown_volatility (map (map Num) ?R) (series_of_dict ?vols) ?ws
     = Inr (fsqrt (Num 4))"
    unfolding q1 by blast
  then have a: "calculate_correlation_breakdown_volatility
      [[Num 1, Num (8 / 10)], [Num (8 / 10), Num 1]] [(''A'', Num 2), (''B'', Num 2)] ?ws = Inr (Num 2)"
    by (simp add: series_of_dict_def)
  from th valid cov have "calculate_daily_portfolio_volatility ?lr ?ws = Inr (fsqrt (Num 9))"
    unfolding q2 by blast
  then have b: "calculate_daily_portfolio_volatility ?lr ?ws = Inr (Num 3)"
    by (simp add: sqrt_nine)
  from th have c: "calculate_annual_correlation_breakdown_volatility (Num 2) = Num (2 * sqrt 252)"
    by blast
  from a b c show ?thesis by blast
qed

text \<open>
  C7, as the code has it. \<open>calculate_stressed_assets_returns\<close> raises
  \<open>InvalidShockError\<close> for every shock outside the closed interval \<open>[-1, 0]\<close> (a
  real below -1 or above 0, an infinity or NaN); for a shock inside it, it returns the
  binary64 product \<open>beta_i * shock\<close> for every asset, which is within a relative
  error of \<open>2^-53\<close> of the exact product when that is in the normal range. A market
  shock of -0.20 with a beta of 1.5 gives -0.30 within floating tolerance.
\<close>

theorem stressed_returns_shock:
  "(r < - 1 \<or> 0 < r \<longrightarrow> calculate_stressed_assets_returns betas (Num r) = Inl InvalidShockError)
   \<and> (shock \<in> {PInf, NInf, NaN} \<longrightarrow>
        calculate_stressed_assets_returns betas shock = Inl InvalidShockError)
   \<and> (- 1 \<le> r \<and> r \<le> 0 \<longrightarrow>
        calculate_stressed_assets_returns betas (Num r)
          = Inr (map (\<lambda>(k, b). (k, fmul64 b (Num r))) betas))
   \<and> (power_int 2 (- 1022) \<le> \<bar>b * r\<bar> \<and> \<bar>b * r\<bar> < 2 ^ 1023 \<longrightarrow>
        (\<exists>p. fmul64 (Num b) (Num r) = Num p \<and> \<bar>p - b * r\<bar> \<le> \<bar>b * r\<bar> / 2 ^ 53))
   \<and> (\<exists>p. calculate_stressed_assets_returns [(''A'', Num (15 / 10))] (b64_round (- 2 / 10))
             = Inr [(''A'', Num p)]
          \<and> \<bar>p - (- 3 / 10)\<bar> \<le> 1 / 10 ^ 16)"
proof -
  have guard: "(r < - 1 \<or> 0 < r \<longrightarrow>
        calculate_stressed_assets_returns betas (Num r) = Inl InvalidShockError)
      \<and> (shock \<in> {PInf, NInf, NaN} \<longrightarrow>
        calculate_stressed_assets_returns betas shock = Inl InvalidShockError)
      \<and> (- 1 \<le> r \<and> r \<le> 0 \<longrightarrow>
        calculate_stressed_assets_returns betas (Num r)
          = Inr (map (\<lambda>(k, b). (k, fmul64 b (Num r))) betas))"
    by (auto simp add: calculate_stressed_assets_returns_def)
  have err: "power_int 2 (- 1022) \<le> \<bar>b * r\<bar> \<and> \<bar>b * r\<bar> < 2 ^ 1023 \<longrightarrow>
        (\<exists>p. fmul64 (Num b) (Num r) = Num p \<and> \<bar>p - b * r\<bar> \<le> \<bar>b * r\<bar> / 2 ^ 53)"
    using fmul64_error by blast
  have "calculate_stressed_assets_returns [(''A'', Num (15 / 10))] (b64_round (- 2 / 10))
          = Inr [(''A'', Num (- 5404319552844596 / 18014398509481984))]"
    unfolding b64_literal_shock
    by (simp add: calculate_stressed_assets_returns_def b64_product_example [simplified])
  moreover have "\<bar>(- 5404319552844596 / 18014398509481984 :: real) - (- 3 / 10)\<bar> \<le> 1 / 10 ^ 16"
    by simp
  ultimately have ex: "\<exists>p. calculate_stressed_assets_returns [(''A'', Num (15 / 10))]
             (b64_round (- 2 / 10)) = Inr [(''A'', Num p)]
          \<and> \<bar>p - (- 3 / 10)\<bar> \<le> 1 / 10 ^ 16"
    by blast
  from guard err ex show ?thesis by blast
qed

theorem stressed_returns_shock_witness:
  "calculate_stressed_assets_returns [(''A'', Num 2)] (Num (- 2)) = Inl InvalidShockError
   \<and> calculate_stressed_assets_returns [(''A'', Num 2)] (Num (1 / 10)) = Inl InvalidShockError
   \<and> calculate_stressed_assets_returns [(''A'', Num 2)] NaN = Inl InvalidShockError
   \<and> calculate_stressed_assets_returns [(''A'', Num 2), (''B'', PInf)] (Num (- 1 / 2))
        = Inr [(''A'', Num (- 1)), (''B'', NInf)]
   \<and> (\<exists>p. fmul64 (Num 2) (Num (- 1 / 2)) = Num p
          \<and> \<bar>p - 2 * (- 1 / 2)\<bar> \<le> \<bar>2 * (- 1 / 2) :: real\<bar> / 2 ^ 53)"
proof -
  have a: "calculate_stressed_assets_returns [(''A'', Num 2)] (Num (- 2)) = Inl InvalidShockError"
    using stressed_returns_shock [of "- 2" "[(''A'', Num 2)]" NaN 0] by simp
  have b: "calculate_stressed_assets_returns [(''A'', Num 2)] (Num (1 / 10)) = Inl InvalidShockError"
    using stressed_returns_shock [of "1 / 10" "[(''A'', Num 2)]" NaN 0] by simp
  have c: "calculate_stressed_assets_returns [(''A'', Num 2)] NaN = Inl InvalidShockError"
    using stressed_returns_shock [of "- 2" "[(''A'', Num 2)]" NaN 0] by simp
  note th = stressed_returns_shock [of "- 1 / 2" "[(''A'', Num 2), (''B'', PInf)]" NaN 2]
  have range: "power_int 2 (- 1022) \<le> \<bar>2 * (- 1 / 2) :: real\<bar> \<and> \<bar>2 * (- 1 / 2) :: real\<bar> < 2 ^ 1023"
    by simp
  have "calculate_stressed_assets_returns [(''A'', Num 2), (''B'', PInf)] (Num (- 1 / 2))
        = Inr (map (\<lambda>(k, b). (k, fmul64 b (Num (- 1 / 2)))) [(''A'', Num 2), (''B'', PInf)])"
    using th by simp
  moreover have "fmul64 PInf (Num (- 1 / 2)) = NInf"
    by (simp add: fmul64_def finf_def)
  ultimately have d: "calculate_stressed_assets_returns [(''A'', Num 2), (''B'', PInf)] (Num (- 1 / 2))
        = Inr [(''A'', Num (- 1)), (''B'', NInf)]"
    by (simp add: b64_minus_one [simplified])
  from th range have e: "\<exists>p. fmul64 (Num 2) (Num (- 1 / 2)) = Num p
          \<and> \<bar>p - 2 * (- 1 / 2)\<bar> \<le> \<bar>2 * (- 1 / 2) :: real\<bar> / 2 ^ 53"
    by blast
  from a b c d e show ?thesis by blast
qed

text \<open>
  C7, as stated, fails in its example: the binary64 product of 1.5 and the shock -0.20
  is \<open>-0.30000000000000004\<close>, one unit in the last place away from the binary64
  value of -0.30, and not the real number -0.30 either.
\<close>

theorem stressed_return_inexact_counterexample:
  "calculate_stressed_assets_returns [(''A'', Num (15 / 10))] (b64_round (- 2 / 10))
     = Inr [(''A'', Num (- 5404319552844596 / 18014398509481984))]
   \<and> b64_round (- 3 / 10) = Num (- 5404319552844595 / 18014398509481984)
   \<and> Num (- 5404319552844596 / 18014398509481984) \<noteq> b64_round (- 3 / 10)
   \<and> Num (- 5404319552844596 / 18014398509481984) \<noteq> Num (- 3 / 10)"
proof -
  have "calculate_stressed_assets_returns [(''A'', Num (15 / 10))] (b64_round (- 2 / 10))
          = Inr [(''A'', Num (- 5404319552844596 / 18014398509481984))]"
    unfolding b64_literal_shock
    by (simp add: calculate_stressed_assets_returns_def b64_product_example [simplified])
  then show ?thesis
    unfolding b64_literal_result by simp
qed

end
